theory Spec2Isabelle
  imports Complex_Main "HOL-Library.Sublist" "HOL-Library.List_Lexorder" "HOL-Library.Char_ord"
    "HOL-Library.Multiset"
begin

section \<open>Python values\<close>

text \<open>
  The backend moves JSON documents around: what \<^verbatim>\<open>json.load\<close> returns, what the
  services build and return. A number is a Python int or a Python float; floats are
  idealised as exact rationals (no rounding, no NaN, no infinities). A dict is an
  association list in insertion order, looked up by \<open>map_of\<close>. Strings are lists of
  8-bit characters; the string operations below are the ASCII ones.
\<close>

datatype num = I int | F rat

datatype json =
    JNull
  | JBool bool
  | JNum num
  | JStr string
  | JArr "json list"
  | JObj "(string \<times> json) list"

datatype exn =
    AttributeError
  | TypeError
  | ValueError
  | KeyError
  | IndexError
  | RequestError string
  | Unmodelled

text \<open>
  \<open>Unmodelled\<close> is not a Python exception: it marks the inputs on which the model
  says nothing (sorting by keys that are not strings).
\<close>

fun to_rat :: "num \<Rightarrow> rat" where
  "to_rat (I i) = of_int i"
| "to_rat (F q) = q"

text \<open>Python arithmetic on numbers: int with int stays int, anything with a float is a float.\<close>

fun num_add :: "num \<Rightarrow> num \<Rightarrow> num" where
  "num_add (I a) (I b) = I (a + b)"
| "num_add a b = F (to_rat a + to_rat b)"

fun num_sub :: "num \<Rightarrow> num \<Rightarrow> num" where
  "num_sub (I a) (I b) = I (a - b)"
| "num_sub a b = F (to_rat a - to_rat b)"

text \<open>Truthiness, as \<^verbatim>\<open>if x:\<close> and \<^verbatim>\<open>x or y\<close> test it.\<close>

fun truthy :: "json \<Rightarrow> bool" where
  "truthy JNull = False"
| "truthy (JBool b) = b"
| "truthy (JNum n) = (to_rat n \<noteq> 0)"
| "truthy (JStr s) = (s \<noteq> [])"
| "truthy (JArr xs) = (xs \<noteq> [])"
| "truthy (JObj kvs) = (kvs \<noteq> [])"

text \<open>Sequencing of computations that may raise: the first exception wins.\<close>

definition then_py :: "exn + 'a \<Rightarrow> ('a \<Rightarrow> exn + 'b) \<Rightarrow> exn + 'b" where
  "then_py m f = (case m of Inl e \<Rightarrow> Inl e | Inr v \<Rightarrow> f v)"

text \<open>\<^verbatim>\<open>x.get(k, d)\<close>: only a dict has the method.\<close>

definition dict_get :: "json \<Rightarrow> string \<Rightarrow> json \<Rightarrow> exn + json" where
  "dict_get x k d =
     (case x of
        JObj kvs \<Rightarrow> Inr (case map_of kvs k of None \<Rightarrow> d | Some v \<Rightarrow> v)
      | _ \<Rightarrow> Inl AttributeError)"

text \<open>\<^verbatim>\<open>for r in data\<close>: a list gives its elements, a dict its keys, a string its characters.\<close>

definition py_iter :: "json \<Rightarrow> exn + json list" where
  "py_iter x =
     (case x of
        JArr xs \<Rightarrow> Inr xs
      | JObj kvs \<Rightarrow> Inr (map (\<lambda>kv. JStr (fst kv)) kvs)
      | JStr s \<Rightarrow> Inr (map (\<lambda>c. JStr [c]) s)
      | _ \<Rightarrow> Inl TypeError)"

text \<open>\<^verbatim>\<open>s.strip()\<close> and \<^verbatim>\<open>s.lower()\<close> on ASCII text.\<close>

definition is_space :: "char \<Rightarrow> bool" where
  "is_space c = (c \<in> set [CHR 0x20, CHR 0x09, CHR 0x0A, CHR 0x0B, CHR 0x0C, CHR 0x0D,
                           CHR 0x1C, CHR 0x1D, CHR 0x1E, CHR 0x1F])"

definition strip :: "string \<Rightarrow> string" where
  "strip s = rev (dropWhile is_space (rev (dropWhile is_space s)))"

definition lower_char :: "char \<Rightarrow> char" where
  "lower_char c =
     (if CHR ''A'' \<le> c \<and> c \<le> CHR ''Z'' then char_of (of_char c + (32::nat)) else c)"

definition lower :: "string \<Rightarrow> string" where
  "lower s = map lower_char s"

text \<open>\<^verbatim>\<open>v.strip().lower()\<close> on a value: a method of strings only.\<close>

definition strip_lower :: "json \<Rightarrow> exn + string" where
  "strip_lower v = (case v of JStr s \<Rightarrow> Inr (lower (strip s)) | _ \<Rightarrow> Inl AttributeError)"

section \<open>The Python library and the outside world\<close>

text \<open>
  The library functions the code calls are parameters of the model: parsing and
  printing of dates (a date is its day number), \<^verbatim>\<open>float\<close> of a string, \<^verbatim>\<open>str\<close> of a
  value and of an exception, \<^verbatim>\<open>str.title\<close>. \<open>lib_strptime fmt s = None\<close> is the
  \<^verbatim>\<open>ValueError\<close> of \<^verbatim>\<open>datetime.strptime\<close>.
\<close>

type_synonym date = int

record pylib =
  lib_strptime :: "string \<Rightarrow> string \<Rightarrow> date option"
  lib_strftime :: "string \<Rightarrow> date \<Rightarrow> string"
  lib_float_of_str :: "string \<Rightarrow> rat option"
  lib_str :: "json \<Rightarrow> string"
  lib_str_exn :: "exn \<Rightarrow> string"
  lib_title :: "string \<Rightarrow> string"

text \<open>
  A file of the data directory is missing, or cannot be read or parsed (\<^verbatim>\<open>open\<close> or
  \<^verbatim>\<open>json.load\<close> raises), or holds a JSON document.
\<close>

datatype fstate = Missing | Corrupt | Holds json

text \<open>An HTTP response: its status code, and what \<^verbatim>\<open>response.json()\<close> gives.\<close>

record response =
  status_code :: int
  body :: "exn + json"

text \<open>
  The world a request runs in: the five files, the two credentials of the environment,
  the clock, the random draws of \<^verbatim>\<open>random.uniform(-0.1, 0.1)\<close> in call order, and the
  three remote services as functions of what the code sends them. Writing a file is
  taken to succeed.
\<close>

record world =
  crops_file :: fstate
  expenses_file :: fstate
  soil_file :: fstate
  weather_file :: fstate
  prices_file :: fstate
  openweather_key :: "string option"
  openrouter_key :: "string option"
  today :: date
  uniform :: "nat \<Rightarrow> rat"
  weather_api :: "string \<Rightarrow> string \<Rightarrow> exn + json"
  price_api :: "string \<Rightarrow> string \<Rightarrow> exn + response"
  llm_api :: "string \<Rightarrow> exn + response"

text \<open>\<^verbatim>\<open>float(x)\<close>.\<close>

definition py_float :: "pylib \<Rightarrow> json \<Rightarrow> exn + rat" where
  "py_float L v =
     (case v of
        JNum n \<Rightarrow> Inr (to_rat n)
      | JBool b \<Rightarrow> Inr (if b then 1 else 0)
      | JStr s \<Rightarrow> (case lib_float_of_str L s of None \<Rightarrow> Inl ValueError | Some q \<Rightarrow> Inr q)
      | _ \<Rightarrow> Inl TypeError)"

section \<open>farm\_manager: crops\<close>

definition load_crops :: "world \<Rightarrow> json list" where
  "load_crops w =
     (case crops_file w of
        Missing \<Rightarrow> []
      | Corrupt \<Rightarrow> []
      | Holds data \<Rightarrow> (case data of JArr xs \<Rightarrow> xs | _ \<Rightarrow> []))"

definition save_crops :: "json list \<Rightarrow> world \<Rightarrow> world" where
  "save_crops crops w = w\<lparr>crops_file := Holds (JArr crops)\<rparr>"

definition add_crop :: "pylib \<Rightarrow> json \<Rightarrow> json \<Rightarrow> world \<Rightarrow> json \<times> world" where
  "add_crop L crop plot w =
     (let crops = load_crops w;
          new_crop = JObj [(''crop'', crop), (''plot'', plot),
                           (''sown_date'', JStr (lib_strftime L ''%d %b %Y'' (today w))),
                           (''stage'', JStr ''Sown''), (''progress'', JNum (I 0))]
      in (JObj [(''status'', JStr ''success''), (''message'', JStr ''Crop added''),
                (''data'', new_crop)],
          save_crops (crops @ [new_crop]) w))"

definition delete_crop :: "int \<Rightarrow> world \<Rightarrow> json \<times> world" where
  "delete_crop index w =
     (let crops = load_crops w in
      if index < 0 \<or> index \<ge> int (length crops)
      then (JObj [(''error'', JStr ''Invalid crop index'')], w)
      else
        (let removed = crops ! nat index;
             crops' = take (nat index) crops @ drop (Suc (nat index)) crops
         in (JObj [(''status'', JStr ''success''), (''message'', JStr ''Crop deleted''),
                   (''data'', removed)],
             save_crops crops' w)))"

definition get_crops :: "world \<Rightarrow> json list" where
  "get_crops w = rev (load_crops w)"

section \<open>farm\_manager: expenses\<close>

definition load_expenses :: "world \<Rightarrow> json list" where
  "load_expenses w =
     (case expenses_file w of
        Missing \<Rightarrow> []
      | Corrupt \<Rightarrow> []
      | Holds data \<Rightarrow> (case data of JArr xs \<Rightarrow> xs | _ \<Rightarrow> []))"

definition save_expenses :: "json list \<Rightarrow> world \<Rightarrow> world" where
  "save_expenses expenses w = w\<lparr>expenses_file := Holds (JArr expenses)\<rparr>"

text \<open>
  The two nested \<^verbatim>\<open>try\<close> blocks of \<^verbatim>\<open>add_expense\<close>: the sortable timestamp and the
  display date.
\<close>

definition stamp :: "pylib \<Rightarrow> string \<Rightarrow> json \<times> string" where
  "stamp L d =
     (case lib_strptime L ''%Y-%m-%d'' d of
        Some dt \<Rightarrow> (JStr (lib_strftime L ''%Y-%m-%d'' dt), lib_strftime L ''%d %b %Y'' dt)
      | None \<Rightarrow>
          (case lib_strptime L ''%d %b %Y'' d of
             Some dt \<Rightarrow> (JStr (lib_strftime L ''%Y-%m-%d'' dt), d)
           | None \<Rightarrow> (JNull, d)))"

definition new_transaction :: "pylib \<Rightarrow> string \<Rightarrow> rat \<Rightarrow> string \<Rightarrow> string \<Rightarrow> json" where
  "new_transaction L ttl amount typ d =
     JObj [(''title'', JStr ttl), (''amount'', JNum (F amount)), (''type'', JStr typ),
           (''date'', JStr (snd (stamp L d))), (''ts'', fst (stamp L d))]"

definition add_expense ::
  "pylib \<Rightarrow> string \<Rightarrow> json \<Rightarrow> string \<Rightarrow> string \<Rightarrow> world \<Rightarrow> exn + json \<times> world" where
  "add_expense L ttl amount typ d w =
     (let expenses = load_expenses w in
      then_py (py_float L amount) (\<lambda>a.
        let t = new_transaction L ttl a typ d
        in Inr (JObj [(''status'', JStr ''success''), (''message'', JStr ''Expense added''),
                      (''data'', t)],
                save_expenses (expenses @ [t]) w)))"

text \<open>The sort key of \<^verbatim>\<open>get_expenses\<close>.\<close>

definition sort_key_of :: "pylib \<Rightarrow> json \<Rightarrow> exn + string" where
  "sort_key_of L x =
     then_py (dict_get x ''ts'' JNull) (\<lambda>ts.
       if truthy ts then (case ts of JStr s \<Rightarrow> Inr s | _ \<Rightarrow> Inl Unmodelled)
       else
         then_py (dict_get x ''date'' (JStr '''')) (\<lambda>d.
           case d of
             JStr s \<Rightarrow>
               (case lib_strptime L ''%d %b %Y'' s of
                  Some dt \<Rightarrow> Inr (lib_strftime L ''%Y-%m-%d'' dt)
                | None \<Rightarrow>
                    (case lib_strptime L ''%Y-%m-%d'' s of
                       Some dt \<Rightarrow> Inr (lib_strftime L ''%Y-%m-%d'' dt)
                     | None \<Rightarrow> Inr ''''))
           | _ \<Rightarrow> Inr ''''))"

text \<open>The keys are computed for all records first, in order; the first exception wins.\<close>

fun keyed :: "pylib \<Rightarrow> json list \<Rightarrow> exn + (string \<times> json) list" where
  "keyed L [] = Inr []"
| "keyed L (x # xs) =
     then_py (sort_key_of L x) (\<lambda>k.
       then_py (keyed L xs) (\<lambda>ks. Inr ((k, x) # ks)))"

text \<open>
  \<^verbatim>\<open>sorted(..., reverse=True)\<close> is a stable sort of the reversed list, reversed again:
  descending keys, records with equal keys in their stored order.
\<close>

definition sorted_reverse :: "(string \<times> json) list \<Rightarrow> json list" where
  "sorted_reverse ks = map snd (rev (sort_key fst (rev ks)))"

definition get_expenses :: "pylib \<Rightarrow> world \<Rightarrow> exn + json list" where
  "get_expenses L w = then_py (keyed L (load_expenses w)) (\<lambda>ks. Inr (sorted_reverse ks))"

text \<open>The loop of \<^verbatim>\<open>get_summary\<close> over the two running totals.\<close>

fun summary_loop :: "pylib \<Rightarrow> json list \<Rightarrow> num \<times> num \<Rightarrow> exn + num \<times> num" where
  "summary_loop L [] acc = Inr acc"
| "summary_loop L (e # es) (total_income, total_expense) =
     then_py (dict_get e ''type'' JNull) (\<lambda>t.
       then_py (dict_get e ''amount'' (JNum (I 0))) (\<lambda>a.
         then_py (py_float L a) (\<lambda>q.
           if t = JStr ''income''
           then summary_loop L es (num_add total_income (F q), total_expense)
           else summary_loop L es (total_income, num_add total_expense (F q)))))"

definition summary :: "num \<Rightarrow> num \<Rightarrow> json" where
  "summary total_income total_expense =
     JObj [(''total_income'', JNum total_income), (''total_expense'', JNum total_expense),
           (''profit'', JNum (num_sub total_income total_expense))]"

definition get_summary :: "pylib \<Rightarrow> world \<Rightarrow> exn + json" where
  "get_summary L w =
     then_py (summary_loop L (load_expenses w) (I 0, I 0)) (\<lambda>(ti, te). Inr (summary ti te))"

section \<open>More Python operations\<close>

text \<open>\<^verbatim>\<open>k in x\<close> for a string \<open>k\<close>: a key of a dict, an element of a list, a substring of a string.\<close>

definition py_contains_str :: "string \<Rightarrow> json \<Rightarrow> exn + bool" where
  "py_contains_str k x =
     (case x of
        JObj kvs \<Rightarrow> Inr (k \<in> set (map fst kvs))
      | JArr xs \<Rightarrow> Inr (JStr k \<in> set xs)
      | JStr s \<Rightarrow> Inr (sublist k s)
      | _ \<Rightarrow> Inl TypeError)"

text \<open>\<^verbatim>\<open>x[k]\<close> for a string \<open>k\<close>, and \<^verbatim>\<open>x[0]\<close>.\<close>

definition py_getitem :: "json \<Rightarrow> string \<Rightarrow> exn + json" where
  "py_getitem x k =
     (case x of
        JObj kvs \<Rightarrow> (case map_of kvs k of None \<Rightarrow> Inl KeyError | Some v \<Rightarrow> Inr v)
      | _ \<Rightarrow> Inl TypeError)"

definition py_first :: "json \<Rightarrow> exn + json" where
  "py_first x =
     (case x of
        JArr xs \<Rightarrow> (case xs of [] \<Rightarrow> Inl IndexError | y # _ \<Rightarrow> Inr y)
      | JStr s \<Rightarrow> (case s of [] \<Rightarrow> Inl IndexError | c # _ \<Rightarrow> Inr (JStr [c]))
      | JObj kvs \<Rightarrow> Inl KeyError
      | _ \<Rightarrow> Inl TypeError)"

definition py_len :: "json \<Rightarrow> exn + nat" where
  "py_len x =
     (case x of
        JArr xs \<Rightarrow> Inr (length xs)
      | JObj kvs \<Rightarrow> Inr (length kvs)
      | JStr s \<Rightarrow> Inr (length s)
      | _ \<Rightarrow> Inl TypeError)"

text \<open>\<^verbatim>\<open>x == 200\<close>: a number compares by value; \<^verbatim>\<open>True\<close> is 1 and \<^verbatim>\<open>False\<close> is 0, never 200.\<close>

definition is_200 :: "json \<Rightarrow> bool" where
  "is_200 x = (case x of JNum n \<Rightarrow> to_rat n = 200 | _ \<Rightarrow> False)"

text \<open>\<^verbatim>\<open>int(q)\<close> of a float truncates towards zero.\<close>

definition py_int :: "rat \<Rightarrow> int" where
  "py_int q = (if q < 0 then \<lceil>q\<rceil> else \<lfloor>q\<rfloor>)"

text \<open>\<^verbatim>\<open>a - b\<close> on values: numbers and booleans only.\<close>

definition as_num :: "json \<Rightarrow> num option" where
  "as_num x = (case x of JNum n \<Rightarrow> Some n | JBool b \<Rightarrow> Some (I (if b then 1 else 0)) | _ \<Rightarrow> None)"

definition py_sub :: "json \<Rightarrow> json \<Rightarrow> exn + json" where
  "py_sub a b =
     (case (as_num a, as_num b) of
        (Some m, Some n) \<Rightarrow> Inr (JNum (num_sub m n))
      | _ \<Rightarrow> Inl TypeError)"

text \<open>\<^verbatim>\<open>a or b\<close> returns the first operand when it is truthy.\<close>

definition py_or :: "json \<Rightarrow> json \<Rightarrow> json" where
  "py_or a b = (if truthy a then a else b)"

text \<open>Interpolation into an f-string: a string goes in as it is.\<close>

definition py_str :: "pylib \<Rightarrow> json \<Rightarrow> string" where
  "py_str L v = (case v of JStr s \<Rightarrow> s | _ \<Rightarrow> lib_str L v)"

text \<open>A credential is configured when the environment variable is set and not empty.\<close>

definition configured :: "string option \<Rightarrow> bool" where
  "configured k = (case k of None \<Rightarrow> False | Some s \<Rightarrow> s \<noteq> [])"

text \<open>A loop that returns the first record passing a test, and a list comprehension.\<close>

fun find_first :: "(json \<Rightarrow> exn + bool) \<Rightarrow> json list \<Rightarrow> exn + json option" where
  "find_first p [] = Inr None"
| "find_first p (r # rs) = then_py (p r) (\<lambda>b. if b then Inr (Some r) else find_first p rs)"

fun filter_py :: "(json \<Rightarrow> exn + bool) \<Rightarrow> json list \<Rightarrow> exn + json list" where
  "filter_py p [] = Inr []"
| "filter_py p (r # rs) =
     then_py (p r) (\<lambda>b. then_py (filter_py p rs) (\<lambda>ys. Inr (if b then r # ys else ys)))"

text \<open>The entries \<^verbatim>\<open>k: r.get(k, d)\<close> of a dict display, in order.\<close>

fun gets :: "json \<Rightarrow> (string \<times> json) list \<Rightarrow> exn + (string \<times> json) list" where
  "gets r [] = Inr []"
| "gets r ((k, d) # kds) =
     then_py (dict_get r k d) (\<lambda>v. then_py (gets r kds) (\<lambda>rest. Inr ((k, v) # rest)))"

section \<open>info\_service: weather\<close>

definition city_of :: "json \<Rightarrow> exn + string" where
  "city_of r = then_py (dict_get r ''city'' (JStr '''')) strip_lower"

definition exact_city :: "string \<Rightarrow> json \<Rightarrow> exn + bool" where
  "exact_city city_l r = then_py (city_of r) (\<lambda>c. Inr (c = city_l))"

definition contains_city :: "string \<Rightarrow> json \<Rightarrow> exn + bool" where
  "contains_city city_l r =
     (if city_l = [] then Inr False else then_py (city_of r) (\<lambda>c. Inr (sublist city_l c)))"

definition default_city :: "json \<Rightarrow> exn + bool" where
  "default_city r = then_py (city_of r) (\<lambda>c. Inr (c = ''default'' \<or> c = ''pune''))"

text \<open>The body of the \<^verbatim>\<open>try\<close> of \<^verbatim>\<open>_find_local_weather\<close>; \<open>JNull\<close> is \<^verbatim>\<open>None\<close>.\<close>

definition find_local_weather_body :: "string \<Rightarrow> world \<Rightarrow> exn + json" where
  "find_local_weather_body city w =
     (case weather_file w of
        Missing \<Rightarrow> Inr JNull
      | Corrupt \<Rightarrow> Inl ValueError
      | Holds data \<Rightarrow>
          (let city_l = lower (strip city) in
           then_py (py_iter data) (\<lambda>rs.
           then_py (find_first (exact_city city_l) rs) (\<lambda>m1.
             case m1 of Some r \<Rightarrow> Inr r | None \<Rightarrow>
           then_py (find_first (contains_city city_l) rs) (\<lambda>m2.
             case m2 of Some r \<Rightarrow> Inr r | None \<Rightarrow>
           then_py (find_first default_city rs) (\<lambda>m3.
             case m3 of Some r \<Rightarrow> Inr r | None \<Rightarrow> Inr JNull))))))"

definition find_local_weather :: "string \<Rightarrow> world \<Rightarrow> json" where
  "find_local_weather city w =
     (case find_local_weather_body city w of Inl e \<Rightarrow> JNull | Inr v \<Rightarrow> v)"

text \<open>\<^verbatim>\<open>local = _find_local_weather(city); if local: return local; return err\<close>.\<close>

definition local_weather_or :: "string \<Rightarrow> world \<Rightarrow> json \<Rightarrow> json" where
  "local_weather_or city w err =
     (let local = find_local_weather city w in if truthy local then local else err)"

text \<open>The body of the \<^verbatim>\<open>try\<close> of \<^verbatim>\<open>get_weather\<close>, with the credential \<open>k\<close>.\<close>

definition get_weather_body :: "string \<Rightarrow> string \<Rightarrow> world \<Rightarrow> exn + json" where
  "get_weather_body k city w =
     then_py (weather_api w city k) (\<lambda>data.
     then_py (dict_get data ''cod'' JNull) (\<lambda>cod.
       if \<not> is_200 cod
       then then_py (dict_get data ''message'' JNull) (\<lambda>msg.
              Inr (local_weather_or city w (JObj [(''error'', msg)])))
       else
         then_py (then_py (py_getitem data ''main'') (\<lambda>m. py_getitem m ''temp'')) (\<lambda>temp.
         then_py (then_py (py_getitem data ''main'') (\<lambda>m. py_getitem m ''humidity'')) (\<lambda>hum.
         then_py (then_py (then_py (py_getitem data ''weather'') py_first)
                    (\<lambda>x. py_getitem x ''description'')) (\<lambda>descr.
           Inr (JObj [(''city'', JStr city), (''temp'', temp), (''humidity'', hum),
                      (''weather'', descr)]))))))"

definition get_weather :: "pylib \<Rightarrow> string \<Rightarrow> world \<Rightarrow> json" where
  "get_weather L city w =
     (if \<not> configured (openweather_key w)
      then local_weather_or city w (JObj [(''error'', JStr ''Missing OPENWEATHER_KEY in .env'')])
      else
        (case get_weather_body (case openweather_key w of Some k \<Rightarrow> k | None \<Rightarrow> []) city w of
           Inr v \<Rightarrow> v
         | Inl e \<Rightarrow> local_weather_or city w (JObj [(''error'', JStr (lib_str_exn L e))])))"

section \<open>info\_service: market prices\<close>

definition crop_of :: "json \<Rightarrow> exn + string" where
  "crop_of r = then_py (dict_get r ''crop'' (JStr '''')) strip_lower"

definition state_of :: "json \<Rightarrow> exn + string" where
  "state_of r = then_py (dict_get r ''state'' (JStr '''')) strip_lower"

definition exact_crop :: "string \<Rightarrow> json \<Rightarrow> exn + bool" where
  "exact_crop crop_l r = then_py (crop_of r) (\<lambda>c. Inr (c = crop_l))"

definition exact_state :: "string \<Rightarrow> json \<Rightarrow> exn + bool" where
  "exact_state state_l r = then_py (state_of r) (\<lambda>c. Inr (c = state_l))"

definition contains_crop :: "string \<Rightarrow> json \<Rightarrow> exn + bool" where
  "contains_crop crop_l r = then_py (crop_of r) (\<lambda>c. Inr (sublist crop_l c))"

text \<open>The body of the \<^verbatim>\<open>try\<close> of \<^verbatim>\<open>_find_local_price\<close>; \<open>JNull\<close> is \<^verbatim>\<open>None\<close>.\<close>

definition find_local_price_body :: "string \<Rightarrow> string \<Rightarrow> world \<Rightarrow> exn + json" where
  "find_local_price_body crop state w =
     (case prices_file w of
        Missing \<Rightarrow> Inr JNull
      | Corrupt \<Rightarrow> Inl ValueError
      | Holds data \<Rightarrow>
          (let crop_l = lower (strip crop); state_l = lower (strip state) in
           then_py (py_iter data) (\<lambda>rs.
           then_py (filter_py (exact_crop crop_l) rs) (\<lambda>candidates.
           then_py (if state_l \<noteq> []
                    then then_py (filter_py (exact_state state_l) candidates) (\<lambda>cand_state.
                           Inr (if cand_state \<noteq> [] then cand_state else candidates))
                    else Inr candidates) (\<lambda>candidates.
           then_py (if candidates = [] \<and> crop_l \<noteq> []
                    then filter_py (contains_crop crop_l) rs
                    else Inr candidates) (\<lambda>candidates.
             case candidates of
               [] \<Rightarrow> Inr JNull
             | r # _ \<Rightarrow>
                 then_py (gets r [(''crop'', JStr crop), (''state'', JStr state),
                                  (''district'', JNull), (''market'', JNull),
                                  (''modal_price'', JNull), (''min_price'', JNull),
                                  (''max_price'', JNull), (''arrival_date'', JNull),
                                  (''variety'', JNull)]) (\<lambda>fields.
                   Inr (JObj (fields @ [(''source'', JStr ''local'')])))))))))"

definition find_local_price :: "string \<Rightarrow> string \<Rightarrow> world \<Rightarrow> json" where
  "find_local_price crop state w =
     (case find_local_price_body crop state w of Inl e \<Rightarrow> JNull | Inr v \<Rightarrow> v)"

definition local_price_or :: "string \<Rightarrow> string \<Rightarrow> world \<Rightarrow> json \<Rightarrow> json" where
  "local_price_or commodity state w err =
     (let local = find_local_price commodity state w in if truthy local then local else err)"

text \<open>\<^verbatim>\<open>"records" in data and len(data.get("records", [])) > 0\<close>.\<close>

definition has_records :: "json \<Rightarrow> exn + bool" where
  "has_records data =
     then_py (py_contains_str ''records'' data) (\<lambda>b.
       if \<not> b then Inr False
       else then_py (dict_get data ''records'' (JArr [])) (\<lambda>rs.
              then_py (py_len rs) (\<lambda>n. Inr (n > 0))))"

text \<open>
  The loop that makes up the history: \<open>i\<close> runs over the days back from today, \<open>k\<close>
  counts the random draws made so far.
\<close>

fun history_loop :: "pylib \<Rightarrow> world \<Rightarrow> json \<Rightarrow> nat list \<Rightarrow> nat \<Rightarrow> exn + json list" where
  "history_loop L w base_price [] k = Inr []"
| "history_loop L w base_price (i # is) k =
     (let d = lib_strftime L ''%d %b'' (today w - int i) in
      then_py (py_float L base_price) (\<lambda>b.
        let p = py_int (b * (1 + uniform w k)) in
        then_py (history_loop L w base_price is (Suc k)) (\<lambda>rest.
          Inr (JObj [(''date'', JStr d), (''price'', JNum (I p))] # rest))))"

text \<open>The body of the \<^verbatim>\<open>try\<close> of \<^verbatim>\<open>get_market_price\<close>.\<close>

definition get_market_price_body :: "pylib \<Rightarrow> string \<Rightarrow> string \<Rightarrow> world \<Rightarrow> exn + json" where
  "get_market_price_body L commodity state w =
     then_py (price_api w commodity state) (\<lambda>response.
       if status_code response \<noteq> 200
       then Inr (local_price_or commodity state w
                   (JObj [(''crop'', JStr commodity), (''state'', JStr state),
                          (''error'', JStr (''API returned status code '' @
                                            lib_str L (JNum (I (status_code response)))))]))
       else
         then_py (body response) (\<lambda>data.
         then_py (has_records data) (\<lambda>hit.
           if hit
           then
             then_py (then_py (py_getitem data ''records'') py_first) (\<lambda>records.
             then_py (gets records [(''district'', JNull), (''market'', JNull),
                                    (''modal_price'', JNull), (''min_price'', JNull),
                                    (''max_price'', JNull), (''arrival_date'', JNull),
                                    (''variety'', JNull)]) (\<lambda>fields.
               let result = [(''crop'', JStr commodity), (''state'', JStr state)] @ fields in
               then_py (py_getitem (JObj result) ''modal_price'') (\<lambda>base_price.
               then_py (history_loop L w base_price (rev [0..<7]) 0) (\<lambda>history.
                 Inr (JObj (result @ [(''history'', JArr history)]))))))
           else
             Inr (local_price_or commodity state w
                    (JObj [(''crop'', JStr commodity), (''state'', JStr state),
                           (''error'',
                            JStr ''No data found for the given commodity and state'')])))))"

definition get_market_price :: "pylib \<Rightarrow> string \<Rightarrow> string \<Rightarrow> world \<Rightarrow> json" where
  "get_market_price L commodity state w =
     (case get_market_price_body L commodity state w of
        Inr v \<Rightarrow> v
      | Inl e \<Rightarrow>
          local_price_or commodity state w
            (JObj [(''crop'', JStr commodity), (''state'', JStr state),
                   (''modal_price'', JStr ''N/A''), (''error'', JStr (lib_str_exn L e))]))"

section \<open>info\_service: soil\<close>

definition load_soil_data :: "world \<Rightarrow> json" where
  "load_soil_data w =
     (case soil_file w of
        Missing \<Rightarrow> JObj []
      | Corrupt \<Rightarrow> JObj []
      | Holds data \<Rightarrow> data)"

definition get_soil_report :: "string \<Rightarrow> world \<Rightarrow> exn + json" where
  "get_soil_report field w =
     (let soil = load_soil_data w in
      then_py (py_contains_str field soil) (\<lambda>b.
        if b then py_getitem soil field
        else
          then_py (py_contains_str ''default'' soil) (\<lambda>b.
            if b then py_getitem soil ''default''
            else Inr (JObj [(''error'', JStr ''No soil data'')]))))"

section \<open>ai\_service\<close>

definition nl :: string where
  "nl = [CHR 0x0A]"

definition dq :: string where
  "dq = [CHR 0x22]"

text \<open>The characters outside ASCII of the answer templates, as their UTF-8 bytes.\<close>

definition en_dash :: string where
  "en_dash = [CHR 0xE2, CHR 0x80, CHR 0x93]"

definition degree_sign :: string where
  "degree_sign = [CHR 0xC2, CHR 0xB0]"

definition check_mark :: string where
  "check_mark = [CHR 0xE2, CHR 0x9C, CHR 0x85]"

definition rupee_sign :: string where
  "rupee_sign = [CHR 0xE2, CHR 0x82, CHR 0xB9]"

definition sun_behind_rain_cloud :: string where
  "sun_behind_rain_cloud = [CHR 0xF0, CHR 0x9F, CHR 0x8C, CHR 0xA6]"

definition chart_increasing :: string where
  "chart_increasing = [CHR 0xF0, CHR 0x9F, CHR 0x93, CHR 0x88]"

definition test_tube :: string where
  "test_tube = [CHR 0xF0, CHR 0x9F, CHR 0xA7, CHR 0xAA]"

definition money_bag :: string where
  "money_bag = [CHR 0xF0, CHR 0x9F, CHR 0x92, CHR 0xB0]"

definition mock_response :: "string \<Rightarrow> string" where
  "mock_response prompt =
     (let p = lower prompt in
      if sublist ''weather'' p
      then ''The weather looks clear for the next few days. Good for spraying pesticides.''
      else if sublist ''price'' p
      then ''Market prices are fluctuating. It might be good to hold for a week if you have storage.''
      else if sublist ''soil'' p
      then ''Your soil nitrogen levels seem low. Consider adding Urea or compost.''
      else if sublist ''finance'' p
      then ''You are in profit this season! Keep tracking your expenses.''
      else if sublist ''advice'' p \<or> sublist ''tip'' p
      then ''Rotate your crops to maintain soil health and reduce pest attacks.''
      else ''I am in offline mode. Please check your internet or API key for live AI answers. Meanwhile: Farming is essential!'')"

text \<open>The body of the \<^verbatim>\<open>try\<close> of \<^verbatim>\<open>ask_llm\<close> once the headers are there.\<close>

definition ask_llm_body :: "string \<Rightarrow> world \<Rightarrow> exn + json" where
  "ask_llm_body prompt w =
     then_py (llm_api w prompt) (\<lambda>response.
       if status_code response \<noteq> 200 then Inr (JStr (mock_response prompt))
       else
         then_py (body response) (\<lambda>r.
         then_py (py_contains_str ''error'' r) (\<lambda>err.
           if err then Inr (JStr (mock_response prompt))
           else
             then_py (py_contains_str ''choices'' r) (\<lambda>has.
               if \<not> has then Inr (JStr (mock_response prompt))
               else
                 then_py (then_py (py_getitem r ''choices'') py_len) (\<lambda>n.
                   if n = 0 then Inr (JStr (mock_response prompt))
                   else
                     then_py (then_py (then_py (py_getitem r ''choices'') py_first)
                                (\<lambda>c. py_getitem c ''message''))
                       (\<lambda>m. py_getitem m ''content''))))))"

definition ask_llm :: "string \<Rightarrow> world \<Rightarrow> json" where
  "ask_llm prompt w =
     (if \<not> configured (openrouter_key w) then JStr (mock_response prompt)
      else
        (case ask_llm_body prompt w of
           Inr v \<Rightarrow> v
         | Inl e \<Rightarrow> JStr (mock_response prompt)))"

text \<open>\<^verbatim>\<open>v.strip()\<close> and \<^verbatim>\<open>v.title()\<close> on a value: methods of strings only.\<close>

definition py_strip :: "json \<Rightarrow> exn + string" where
  "py_strip v = (case v of JStr s \<Rightarrow> Inr (strip s) | _ \<Rightarrow> Inl AttributeError)"

definition py_title :: "pylib \<Rightarrow> json \<Rightarrow> exn + string" where
  "py_title L v = (case v of JStr s \<Rightarrow> Inr (lib_title L s) | _ \<Rightarrow> Inl AttributeError)"

definition detect_intent_prompt :: "string \<Rightarrow> string" where
  "detect_intent_prompt question =
     nl @ ''    Classify the intent of this question into one word:'' @ nl @
     ''    - weather'' @ nl @
     ''    - price'' @ nl @
     ''    - soil'' @ nl @
     ''    - finance'' @ nl @
     ''    - crop_advice'' @ nl @
     ''    - general'' @ nl @
     nl @
     ''    Question: '' @ dq @ question @ dq @ nl @
     nl @
     ''    ONLY return one word.'' @ nl @
     ''    ''"

definition detect_intent :: "string \<Rightarrow> world \<Rightarrow> exn + string" where
  "detect_intent question w = strip_lower (ask_llm (detect_intent_prompt question) w)"

definition extract_city_prompt :: "string \<Rightarrow> string" where
  "extract_city_prompt question =
     nl @ ''    Extract the city name from: '' @ dq @ question @ dq @ nl @
     ''    If none found, return '' @ dq @ ''Pune'' @ dq @ ''.'' @ nl @
     ''    ONLY return the city.'' @ nl @
     ''    ''"

definition extract_city :: "string \<Rightarrow> world \<Rightarrow> exn + string" where
  "extract_city question w = py_strip (ask_llm (extract_city_prompt question) w)"

definition extract_crop_prompt :: "string \<Rightarrow> string" where
  "extract_crop_prompt question =
     nl @ ''    Extract the crop name from: '' @ dq @ question @ dq @ nl @
     ''    ONLY return the crop. If not found, return '' @ dq @ ''Tomato'' @ dq @ ''.'' @ nl @
     ''    ''"

definition extract_crop :: "string \<Rightarrow> world \<Rightarrow> exn + string" where
  "extract_crop question w = py_strip (ask_llm (extract_crop_prompt question) w)"

definition format_weather :: "pylib \<Rightarrow> string \<Rightarrow> json \<Rightarrow> exn + string" where
  "format_weather L city data =
     then_py (py_getitem data ''temp'') (\<lambda>temp.
     then_py (py_getitem data ''humidity'') (\<lambda>hum.
     then_py (then_py (py_getitem data ''weather'') (py_title L)) (\<lambda>sky.
       Inr (nl @
            sun_behind_rain_cloud @ '' **Weather Update '' @ en_dash @ '' '' @ city @ ''**'' @ nl @
            ''Temperature: **'' @ py_str L temp @ degree_sign @ ''C**'' @ nl @
            ''Humidity: **'' @ py_str L hum @ ''%**'' @ nl @
            ''Sky: **'' @ sky @ ''**'' @ nl @
            nl @
            check_mark @ '' Good time for outdoor farm work if rain chance is low.'' @ nl))))"

definition format_price :: "pylib \<Rightarrow> json \<Rightarrow> exn + string" where
  "format_price L data =
     then_py (dict_get data ''crop'' JNull) (\<lambda>c1.
     then_py (if truthy c1 then Inr c1
              else then_py (dict_get data ''commodity'' JNull) (\<lambda>c2.
                     Inr (py_or c2 (JStr ''Crop'')))) (\<lambda>crop.
     then_py (dict_get data ''state'' (JStr ''State'')) (\<lambda>state.
     then_py (dict_get data ''market'' (JStr ''N/A'')) (\<lambda>market.
     then_py (dict_get data ''min_price'' (JStr ''N/A'')) (\<lambda>min_price.
     then_py (dict_get data ''max_price'' (JStr ''N/A'')) (\<lambda>max_price.
       Inr (nl @
            chart_increasing @ '' **Market Price for '' @ py_str L crop @ '' '' @ en_dash @
              '' '' @ py_str L state @ ''**'' @ nl @
            ''Market: **'' @ py_str L market @ ''**'' @ nl @
            ''Min: **'' @ rupee_sign @ py_str L min_price @ ''**'' @ nl @
            ''Max: **'' @ rupee_sign @ py_str L max_price @ ''**'' @ nl @
            nl @
            check_mark @ '' Compare local mandi rates to get best deal.'' @ nl)))))))"

definition format_soil :: "pylib \<Rightarrow> json \<Rightarrow> exn + string" where
  "format_soil L data =
     then_py (py_getitem data ''soil_type'') (\<lambda>soil_type.
     then_py (py_getitem data ''ph'') (\<lambda>ph.
     then_py (py_getitem data ''moisture'') (\<lambda>moisture.
     then_py (py_getitem data ''nitrogen'') (\<lambda>nitrogen.
     then_py (py_getitem data ''phosphorus'') (\<lambda>phosphorus.
     then_py (py_getitem data ''potassium'') (\<lambda>potassium.
     then_py (py_getitem data ''last_tested'') (\<lambda>last_tested.
       Inr (nl @
            test_tube @ '' **Soil Report**'' @ nl @
            ''Soil Type: **'' @ py_str L soil_type @ ''**'' @ nl @
            ''pH: **'' @ py_str L ph @ ''**'' @ nl @
            ''Moisture: **'' @ py_str L moisture @ ''**'' @ nl @
            ''N: **'' @ py_str L nitrogen @ ''**'' @ nl @
            ''P: **'' @ py_str L phosphorus @ ''**'' @ nl @
            ''K: **'' @ py_str L potassium @ ''**'' @ nl @
            ''Last Tested: **'' @ py_str L last_tested @ ''**'' @ nl @
            nl @
            check_mark @ '' Soil looks healthy. Moderate fertilization recommended.'' @ nl))))))))"

definition format_finance :: "pylib \<Rightarrow> json \<Rightarrow> exn + string" where
  "format_finance L data =
     then_py (dict_get data ''total_income'' JNull) (\<lambda>i1.
     then_py (if truthy i1 then Inr i1
              else then_py (dict_get data ''income'' JNull) (\<lambda>i2.
                     Inr (py_or i2 (JNum (I 0))))) (\<lambda>income.
     then_py (dict_get data ''total_expense'' JNull) (\<lambda>e1.
     then_py (if truthy e1 then Inr e1
              else then_py (dict_get data ''expense'' JNull) (\<lambda>e2.
                     Inr (py_or e2 (JNum (I 0))))) (\<lambda>expense.
     then_py (dict_get data ''profit'' JNull) (\<lambda>p1.
     then_py (if truthy p1 then Inr p1 else py_sub income expense) (\<lambda>profit.
       Inr (nl @
            money_bag @ '' **Farm Finance Summary**'' @ nl @
            ''Income: **'' @ rupee_sign @ py_str L income @ ''**'' @ nl @
            ''Expenses: **'' @ rupee_sign @ py_str L expense @ ''**'' @ nl @
            ''Profit: **'' @ rupee_sign @ py_str L profit @ ''**'' @ nl @
            nl @
            check_mark @ '' Track weekly to avoid losses.'' @ nl)))))))"

text \<open>\<^verbatim>\<open>if "error" in data: return {"answer": data["error"]}\<close>, else the rendered template.\<close>

definition answer_of :: "json \<Rightarrow> exn + string \<Rightarrow> exn + json" where
  "answer_of data rendered =
     then_py (py_contains_str ''error'' data) (\<lambda>err.
       if err then then_py (py_getitem data ''error'') (\<lambda>e. Inr (JObj [(''answer'', e)]))
       else then_py rendered (\<lambda>s. Inr (JObj [(''answer'', JStr s)])))"

definition process_query :: "pylib \<Rightarrow> string \<Rightarrow> world \<Rightarrow> exn + json" where
  "process_query L question w =
     then_py (detect_intent question w) (\<lambda>intent.
       if sublist ''weather'' intent then
         then_py (extract_city question w) (\<lambda>city.
           let data = get_weather L city w in
           answer_of data (format_weather L city data))
       else if sublist ''price'' intent then
         then_py (extract_crop question w) (\<lambda>crop.
           let data = get_market_price L crop ''Maharashtra'' w in
           answer_of data (format_price L data))
       else if sublist ''soil'' intent then
         then_py (get_soil_report ''default'' w) (\<lambda>data.
           answer_of data (format_soil L data))
       else if sublist ''finance'' intent then
         then_py (get_summary L w) (\<lambda>data.
           then_py (format_finance L data) (\<lambda>s. Inr (JObj [(''answer'', JStr s)])))
       else if sublist ''crop_advice'' intent then
         Inr (JObj [(''answer'',
                     ask_llm (''Give practical crop advice for a farmer: '' @ question @
                              ''. Keep it short and in simple language.'') w)])
       else
         Inr (JObj [(''answer'',
                     ask_llm (''You are KisanAI. Explain answer simply for farmers: '' @
                              question) w)]))"

section \<open>Sequences of calls and the notions the properties are stated with\<close>

text \<open>A client adding expenses one after the other; a failed call stops the run.\<close>

fun add_expenses ::
  "pylib \<Rightarrow> (string \<times> json \<times> string \<times> string) list \<Rightarrow> world \<Rightarrow> exn + world" where
  "add_expenses L [] w = Inr w"
| "add_expenses L ((ttl, amount, typ, d) # rest) w =
     then_py (add_expense L ttl amount typ d w) (\<lambda>(res, w'). add_expenses L rest w')"







text \<open>The amount and the class of a stored transaction, as the specification words them.\<close>

definition spec_amount :: "json \<Rightarrow> rat" where
  "spec_amount r =
     (case r of
        JObj kvs \<Rightarrow> (case map_of kvs ''amount'' of Some (JNum n) \<Rightarrow> to_rat n | _ \<Rightarrow> 0)
      | _ \<Rightarrow> 0)"

definition spec_is_income :: "json \<Rightarrow> bool" where
  "spec_is_income r =
     (case r of
        JObj kvs \<Rightarrow> map_of kvs ''type'' = Some (JStr ''income'')
      | _ \<Rightarrow> False)"

text \<open>The sort key of a record as a plain string (empty where the key cannot be computed).\<close>

definition key_str :: "pylib \<Rightarrow> json \<Rightarrow> string" where
  "key_str L r = (case sort_key_of L r of Inr k \<Rightarrow> k | Inl e \<Rightarrow> [])"

text \<open>The library reads \<open>s\<close> as a \<^verbatim>\<open>%Y-%m-%d\<close> date and prints that date back as \<open>s\<close>.\<close>

definition parses_iso :: "pylib \<Rightarrow> string \<Rightarrow> bool" where
  "parses_iso L s =
     (case lib_strptime L ''%Y-%m-%d'' s of
        Some dt \<Rightarrow> lib_strftime L ''%Y-%m-%d'' dt = s
      | None \<Rightarrow> False)"

text \<open>An integer price lies within 10 percent of the modal price.\<close>

definition within_10_percent :: "int \<Rightarrow> rat \<Rightarrow> bool" where
  "within_10_percent p m = (\<bar>of_int p - m\<bar> \<le> \<bar>m\<bar> / 10)"

section \<open>Concrete libraries and worlds\<close>

text \<open>
  A library that knows a handful of dates and numbers, enough to run the code on
  concrete inputs.
\<close>

definition table_lib :: pylib where
  "table_lib =
     \<lparr>lib_strptime = (\<lambda>fmt s.
        map_of [((''%Y-%m-%d'', ''2024-01-01''), 738886),
                ((''%Y-%m-%d'', ''2024-02-01''), 738917),
                ((''%Y-%m-%d'', ''2024-03-01''), 738946),
                ((''%d %b %Y'', ''01 Jan 2024''), 738886),
                ((''%d %b %Y'', ''01 Feb 2024''), 738917),
                ((''%d %b %Y'', ''01 Mar 2024''), 738946)] (fmt, s)),
      lib_strftime = (\<lambda>fmt d.
        case map_of [((''%Y-%m-%d'', 738886), ''2024-01-01''),
                     ((''%Y-%m-%d'', 738917), ''2024-02-01''),
                     ((''%Y-%m-%d'', 738946), ''2024-03-01''),
                     ((''%d %b %Y'', 738886), ''01 Jan 2024''),
                     ((''%d %b %Y'', 738917), ''01 Feb 2024''),
                     ((''%d %b %Y'', 738946), ''01 Mar 2024''),
                     ((''%d %b'', 738886), ''01 Jan''),
                     ((''%d %b'', 738887), ''02 Jan''),
                     ((''%d %b'', 738888), ''03 Jan''),
                     ((''%d %b'', 738889), ''04 Jan''),
                     ((''%d %b'', 738890), ''05 Jan''),
                     ((''%d %b'', 738891), ''06 Jan''),
                     ((''%d %b'', 738892), ''07 Jan'')] (fmt, d) of
          Some s \<Rightarrow> s
        | None \<Rightarrow> ''?''),
      lib_float_of_str = map_of [(''11'', 11), (''2000'', 2000)],
      lib_str = (\<lambda>v. ''?''),
      lib_str_exn = (\<lambda>e. ''failed''),
      lib_title = (\<lambda>s. s)\<rparr>"

text \<open>A fresh installation on 7 January 2024: no files, no credentials, no network.\<close>

definition fresh_world :: world where
  "fresh_world =
     \<lparr>crops_file = Missing, expenses_file = Missing, soil_file = Missing,
      weather_file = Missing, prices_file = Missing,
      openweather_key = None, openrouter_key = None,
      today = 738892,
      uniform = (\<lambda>k. 0),
      weather_api = (\<lambda>city k. Inl (RequestError ''offline'')),
      price_api = (\<lambda>commodity state. Inl (RequestError ''offline'')),
      llm_api = (\<lambda>prompt. Inl (RequestError ''offline''))\<rparr>"

text \<open>The record \<^verbatim>\<open>add_expense\<close> stores for one call of the client.\<close>

definition recorded :: "pylib \<Rightarrow> string \<times> json \<times> string \<times> string \<Rightarrow> json" where
  "recorded L x =
     (case x of (ttl, amount, typ, d) \<Rightarrow>
        new_transaction L ttl (case py_float L amount of Inr q \<Rightarrow> q | Inl e \<Rightarrow> 0) typ d)"

text \<open>A total as the code accumulates it: the int 0, then one float after the other.\<close>

definition spec_total :: "json list \<Rightarrow> num" where
  "spec_total rs = foldl num_add (I 0) (map (\<lambda>r. F (spec_amount r)) rs)"

text \<open>A crop list with one crop, a soil file that holds a list, a ledger with a misspelt type.\<close>

definition one_crop_world :: world where
  "one_crop_world =
     fresh_world\<lparr>crops_file :=
       Holds (JArr [JObj [(''crop'', JStr ''Wheat''), (''plot'', JStr ''North'')]])\<rparr>"

definition soil_list_world :: world where
  "soil_list_world = fresh_world\<lparr>soil_file := Holds (JArr [JStr ''default''])\<rparr>"


text \<open>A stored transaction, and three additions with what they leave in the ledger.\<close>

definition transaction :: "string \<Rightarrow> rat \<Rightarrow> string \<Rightarrow> string \<Rightarrow> json \<Rightarrow> json" where
  "transaction ttl q ty shown ts =
     JObj [(''title'', JStr ttl), (''amount'', JNum (F q)), (''type'', JStr ty),
           (''date'', JStr shown), (''ts'', ts)]"

definition three_additions :: "(string \<times> json \<times> string \<times> string) list" where
  "three_additions =
     [(''urea'', JNum (F 40), ''expense'', ''2024-01-01''),
      (''wheat sale'', JNum (I 100), ''income'', ''2024-03-01''),
      (''diesel'', JStr ''11'', ''expense'', ''2024-02-01'')]"

definition three_world :: world where
  "three_world =
     fresh_world\<lparr>expenses_file :=
       Holds (JArr [transaction ''urea'' 40 ''expense'' ''01 Jan 2024'' (JStr ''2024-01-01''),
                    transaction ''wheat sale'' 100 ''income'' ''01 Mar 2024'' (JStr ''2024-03-01''),
                    transaction ''diesel'' 11 ''expense'' ''01 Feb 2024'' (JStr ''2024-02-01'')])\<rparr>"

text \<open>A ledger whose first record has a date that no format parses.\<close>

definition undated_world :: world where
  "undated_world =
     fresh_world\<lparr>expenses_file :=
       Holds (JArr [transaction ''fence'' 5 ''expense'' ''soon'' JNull,
                    transaction ''urea'' 40 ''expense'' ''01 Jan 2024'' (JStr ''2024-01-01'')])\<rparr>"






text \<open>The seven fields copied from a live record, and one entry of the made-up history.\<close>

definition record_fields :: "(string \<times> json) list \<Rightarrow> (string \<times> json) list" where
  "record_fields r =
     map (\<lambda>k. (k, case map_of r k of None \<Rightarrow> JNull | Some v \<Rightarrow> v))
       [''district'', ''market'', ''modal_price'', ''min_price'', ''max_price'',
        ''arrival_date'', ''variety'']"

definition history_entry :: "pylib \<Rightarrow> world \<Rightarrow> rat \<Rightarrow> nat \<Rightarrow> nat \<Rightarrow> json" where
  "history_entry L w b i k =
     JObj [(''date'', JStr (lib_strftime L ''%d %b'' (today w - int i))),
           (''price'', JNum (I (py_int (b * (1 + uniform w k)))))]"

text \<open>
  A live price service quoting a modal price of 11, with every random draw at -3/32.
\<close>

definition live_world :: world where
  "live_world =
     fresh_world\<lparr>uniform := (\<lambda>k. - 3 / 32),
                  price_api := (\<lambda>commodity state.
                    Inr \<lparr>status_code = 200,
                         body = Inr (JObj [(''records'',
                                  JArr [JObj [(''market'', JStr ''Pune''),
                                              (''modal_price'', JStr ''11'')]])])\<rparr>)\<rparr>"

text \<open>A weather cache that holds the default city only.\<close>

definition pune :: json where
  "pune = JObj [(''city'', JStr ''Pune''), (''temp'', JNum (I 28)),
                (''humidity'', JNum (I 60)), (''weather'', JStr ''haze'')]"

definition pune_world :: world where
  "pune_world = fresh_world\<lparr>weather_file := Holds (JArr [pune])\<rparr>"


section \<open>Basic facts\<close>

lemma then_py_Inl [simp]: "then_py (Inl e) f = Inl e"
  by (simp add: then_py_def)

lemma then_py_Inr [simp]: "then_py (Inr v) f = f v"
  by (simp add: then_py_def)

lemma then_py_eq_Inr: "then_py m f = Inr y \<longleftrightarrow> (\<exists>v. m = Inr v \<and> f v = Inr y)"
  by (cases m) simp_all

lemma num_add_F [simp]: "num_add x (F q) = F (to_rat x + q)"
  by (cases x) simp_all

lemma to_rat_num_sub: "to_rat (num_sub a b) = to_rat a - to_rat b"
  by (cases a; cases b) simp_all

section \<open>Loading the persisted collections\<close>

text \<open>
  The two list stores fail soft: whatever the file is, the result is a list, and it is
  empty when the file is missing, unreadable, or holds something that is not a list.
\<close>

lemma load_crops_soft:
  "load_crops w = (case crops_file w of Holds (JArr xs) \<Rightarrow> xs | _ \<Rightarrow> [])"
  by (simp add: load_crops_def split: fstate.splits json.splits)

lemma load_expenses_soft:
  "load_expenses w = (case expenses_file w of Holds (JArr xs) \<Rightarrow> xs | _ \<Rightarrow> [])"
  by (simp add: load_expenses_def split: fstate.splits json.splits)

lemma load_soil_data_missing_or_corrupt:
  "soil_file w = Missing \<or> soil_file w = Corrupt \<Longrightarrow> load_soil_data w = JObj []"
  by (auto simp: load_soil_data_def)

text \<open>
  C1: every load operation returns the empty list or the empty map when the file is
  missing, unparsable or of an unexpected shape. The soil store does not: unlike
  \<^verbatim>\<open>load_crops\<close> and \<^verbatim>\<open>load_expenses\<close>, \<^verbatim>\<open>load_soil_data\<close> has no shape check. With a
  soil file holding the JSON list \<^verbatim>\<open>["default"]\<close> it returns that list, and its caller
  \<^verbatim>\<open>get_soil_report\<close> then raises a \<^verbatim>\<open>TypeError\<close>.
\<close>

theorem load_soil_data_returns_non_map:
  "load_soil_data soil_list_world = JArr [JStr ''default'']
   \<and> load_soil_data soil_list_world \<noteq> JObj []
   \<and> get_soil_report ''default'' soil_list_world = Inl TypeError"
  by (simp add: soil_list_world_def load_soil_data_def get_soil_report_def
        py_contains_str_def py_getitem_def)

section \<open>Deleting a crop\<close>

text \<open>
  C3: for every stored crop list and every integer index outside \<open>[0, len)\<close>,
  \<^verbatim>\<open>delete_crop\<close> returns a record with an error field and writes nothing: the world,
  and with it what \<^verbatim>\<open>load_crops\<close> returns, is unchanged.
\<close>

theorem delete_crop_out_of_range:
  "index < 0 \<or> int (length (load_crops w)) \<le> index \<Longrightarrow>
     delete_crop index w = (JObj [(''error'', JStr ''Invalid crop index'')], w)
     \<and> py_contains_str ''error'' (fst (delete_crop index w)) = Inr True
     \<and> load_crops (snd (delete_crop index w)) = load_crops w"
  by (auto simp: delete_crop_def Let_def py_contains_str_def)

theorem delete_crop_out_of_range_witness:
  "((1::int) < 0 \<or> int (length (load_crops one_crop_world)) \<le> 1)
   \<and> delete_crop 1 one_crop_world = (JObj [(''error'', JStr ''Invalid crop index'')], one_crop_world)
   \<and> py_contains_str ''error'' (fst (delete_crop 1 one_crop_world)) = Inr True
   \<and> load_crops (snd (delete_crop 1 one_crop_world)) = load_crops one_crop_world"
proof -
  have h: "(1::int) < 0 \<or> int (length (load_crops one_crop_world)) \<le> 1"
    by (simp add: one_crop_world_def load_crops_def)
  from delete_crop_out_of_range [OF h] h show ?thesis by blast
qed

section \<open>The summary of the ledger\<close>









lemma load_save_expenses [simp]: "load_expenses (save_expenses es w) = es"
  by (simp add: load_expenses_def save_expenses_def)

lemma add_expense_load:
  "add_expense L ttl a ty d w = Inr (res, w') \<Longrightarrow>
   load_expenses w' = load_expenses w @ [recorded L (ttl, a, ty, d)]"
  by (cases "py_float L a") (auto simp: add_expense_def recorded_def Let_def)

lemma add_expenses_load:
  "add_expenses L adds w = Inr w' \<Longrightarrow>
   load_expenses w' = load_expenses w @ map (recorded L) adds"
proof (induction adds arbitrary: w)
  case Nil
  then show ?case by simp
next
  case (Cons x adds)
  obtain ttl a ty d where x: "x = (ttl, a, ty, d)" by (cases x) auto
  from Cons.prems obtain res w1 where
    one: "add_expense L ttl a ty d w = Inr (res, w1)" and
    rest: "add_expenses L adds w1 = Inr w'"
    by (auto simp: x then_py_eq_Inr)
  from Cons.IH [OF rest] add_expense_load [OF one] show ?case by (simp add: x)
qed

lemma spec_amount_new [simp]: "spec_amount (new_transaction L ttl q ty d) = q"
  by (simp add: spec_amount_def new_transaction_def)

lemma spec_is_income_new [simp]:
  "spec_is_income (new_transaction L ttl q ty d) \<longleftrightarrow> ty = ''income''"
  by (simp add: spec_is_income_def new_transaction_def)

lemma summary_loop_new_transaction:
  "summary_loop L (new_transaction L ttl q ty d # es) (ti, te) =
     (if ty = ''income'' then summary_loop L es (F (to_rat ti + q), te)
      else summary_loop L es (ti, F (to_rat te + q)))"
  by (simp add: new_transaction_def dict_get_def py_float_def)

lemma recorded_is_transaction: "\<exists>ttl q ty d. recorded L x = new_transaction L ttl q ty d"
  by (cases x) (auto simp: recorded_def)

lemma summary_loop_transactions:
  "summary_loop L (map (recorded L) adds) (ti, te) =
     Inr (foldl num_add ti
            (map (\<lambda>r. F (spec_amount r)) (filter spec_is_income (map (recorded L) adds))),
          foldl num_add te
            (map (\<lambda>r. F (spec_amount r))
               (filter (\<lambda>r. \<not> spec_is_income r) (map (recorded L) adds))))"
proof (induction adds arbitrary: ti te)
  case Nil
  then show ?case by simp
next
  case (Cons x adds)
  obtain ttl q ty d where x: "recorded L x = new_transaction L ttl q ty d"
    using recorded_is_transaction by blast
  show ?case
    by (simp add: x summary_loop_new_transaction Cons.IH del: summary_loop.simps)
qed

lemma to_rat_foldl: "to_rat (foldl num_add n (map F qs)) = to_rat n + sum_list qs"
  by (induction qs arbitrary: n) simp_all

lemma to_rat_spec_total: "to_rat (spec_total rs) = sum_list (map spec_amount rs)"
  using to_rat_foldl [of "I 0" "map spec_amount rs"] by (simp add: spec_total_def comp_def)

text \<open>
  C4: start from an empty ledger and run any sequence of additions that all succeed
  (every amount converts to a float). The ledger then holds exactly the records of the
  additions, in order, and \<^verbatim>\<open>get_summary\<close> returns the three fields computed from
  that stored list: the income total sums the amounts of the records whose type is
  \<^verbatim>\<open>'income'\<close>, the expense total those of all others, and the profit is their
  difference. The result depends on the stored list only: two worlds with the same list
  give the same summary.
\<close>

theorem get_summary_after_additions:
  assumes "load_expenses w = []" and "add_expenses L adds w = Inr w'"
  shows "load_expenses w' = map (recorded L) adds
       \<and> get_summary L w' =
           Inr (JObj [(''total_income'',
                       JNum (spec_total (filter spec_is_income (load_expenses w')))),
                      (''total_expense'',
                       JNum (spec_total (filter (\<lambda>r. \<not> spec_is_income r) (load_expenses w')))),
                      (''profit'',
                       JNum (num_sub
                               (spec_total (filter spec_is_income (load_expenses w')))
                               (spec_total (filter (\<lambda>r. \<not> spec_is_income r)
                                              (load_expenses w')))))])
       \<and> to_rat (num_sub (spec_total (filter spec_is_income (load_expenses w')))
                         (spec_total (filter (\<lambda>r. \<not> spec_is_income r) (load_expenses w')))) =
           sum_list (map spec_amount (filter spec_is_income (load_expenses w')))
           - sum_list (map spec_amount (filter (\<lambda>r. \<not> spec_is_income r) (load_expenses w')))
       \<and> (\<forall>v. load_expenses v = load_expenses w' \<longrightarrow> get_summary L v = get_summary L w')"
proof -
  have l: "load_expenses w' = map (recorded L) adds"
    using add_expenses_load [OF assms(2)] assms(1) by simp
  have s: "get_summary L w' =
           Inr (summary (spec_total (filter spec_is_income (load_expenses w')))
                        (spec_total (filter (\<lambda>r. \<not> spec_is_income r) (load_expenses w'))))"
    by (simp add: l get_summary_def summary_loop_transactions spec_total_def)
  have c: "\<forall>v. load_expenses v = load_expenses w' \<longrightarrow> get_summary L v = get_summary L w'"
    by (simp add: get_summary_def)
  have p: "to_rat (num_sub (spec_total (filter spec_is_income (load_expenses w')))
                         (spec_total (filter (\<lambda>r. \<not> spec_is_income r) (load_expenses w')))) =
           sum_list (map spec_amount (filter spec_is_income (load_expenses w')))
           - sum_list (map spec_amount (filter (\<lambda>r. \<not> spec_is_income r) (load_expenses w')))"
    by (simp only: to_rat_num_sub to_rat_spec_total)
  from l s [unfolded summary_def] p c show ?thesis by blast
qed


lemma py_float_JNum [simp]: "py_float L (JNum n) = Inr (to_rat n)"
  by (simp add: py_float_def)

lemma float_table: "py_float table_lib (JStr ''11'') = Inr 11"
  by (simp add: py_float_def table_lib_def)

lemma stamp_table:
  "stamp table_lib ''2024-01-01'' = (JStr ''2024-01-01'', ''01 Jan 2024'')"
  "stamp table_lib ''2024-02-01'' = (JStr ''2024-02-01'', ''01 Feb 2024'')"
  "stamp table_lib ''2024-03-01'' = (JStr ''2024-03-01'', ''01 Mar 2024'')"
  by (simp_all add: stamp_def table_lib_def)

lemma three_additions_run:
  "add_expenses table_lib three_additions fresh_world = Inr three_world"
  by (simp add: three_additions_def add_expense_def load_expenses_def float_table
        save_expenses_def new_transaction_def stamp_table three_world_def transaction_def
        fresh_world_def Let_def)

lemma load_expenses_three_world:
  "load_expenses three_world =
     [transaction ''urea'' 40 ''expense'' ''01 Jan 2024'' (JStr ''2024-01-01''),
      transaction ''wheat sale'' 100 ''income'' ''01 Mar 2024'' (JStr ''2024-03-01''),
      transaction ''diesel'' 11 ''expense'' ''01 Feb 2024'' (JStr ''2024-02-01'')]"
  by (simp add: three_world_def load_expenses_def)

theorem get_summary_after_additions_witness:
  "load_expenses fresh_world = []
   \<and> add_expenses table_lib three_additions fresh_world = Inr three_world
   \<and> get_summary table_lib three_world =
       Inr (JObj [(''total_income'', JNum (F 100)), (''total_expense'', JNum (F 51)),
                  (''profit'', JNum (F 49))])"
proof -
  have 1: "load_expenses fresh_world = []"
    by (simp add: load_expenses_def fresh_world_def)
  from get_summary_after_additions [OF 1 three_additions_run]
  have "get_summary table_lib three_world =
          Inr (JObj [(''total_income'', JNum (F 100)), (''total_expense'', JNum (F 51)),
                     (''profit'', JNum (F 49))])"
    by (simp add: load_expenses_three_world transaction_def spec_is_income_def
          spec_total_def spec_amount_def)
  with 1 three_additions_run show ?thesis by blast
qed

section \<open>Listing the ledger\<close>

lemma stamp_iso: "parses_iso L d \<Longrightarrow> fst (stamp L d) = JStr d"
  by (auto simp: parses_iso_def stamp_def split: option.splits)

lemma sort_key_of_iso:
  "parses_iso L d \<Longrightarrow> d \<noteq> [] \<Longrightarrow> sort_key_of L (new_transaction L ttl q ty d) = Inr d"
  by (simp add: sort_key_of_def new_transaction_def dict_get_def stamp_iso)

lemma recorded_JNum:
  "recorded L (ttl, JNum n, ty, d) = new_transaction L ttl (to_rat n) ty d"
  by (simp add: recorded_def)

lemma add_expenses_JNum_total:
  "\<exists>w'. add_expenses L [(t1, JNum n1, y1, d1), (t2, JNum n2, y2, d2), (t3, JNum n3, y3, d3)] w = Inr w'"
  by (simp add: add_expense_def Let_def)

text \<open>
  C5: start from an empty ledger and add three expenses dated 2024-01-01, 2024-03-01 and
  2024-02-01, in that order (the library reading each of these as a \<^verbatim>\<open>%Y-%m-%d\<close> date
  and printing it back unchanged). The three calls succeed and \<^verbatim>\<open>get_expenses\<close> then
  lists the records of 2024-03-01, 2024-02-01, 2024-01-01, in that order: descending in
  the stored \<^verbatim>\<open>ts\<close> key.
\<close>

theorem get_expenses_three_dates:
  assumes iso: "parses_iso L ''2024-01-01''" "parses_iso L ''2024-03-01''"
      "parses_iso L ''2024-02-01''"
    and empty: "load_expenses w = []"
  shows "\<exists>w'. add_expenses L [(t1, JNum n1, y1, ''2024-01-01''),
                              (t2, JNum n2, y2, ''2024-03-01''),
                              (t3, JNum n3, y3, ''2024-02-01'')] w = Inr w'
           \<and> get_expenses L w' =
               Inr [new_transaction L t2 (to_rat n2) y2 ''2024-03-01'',
                    new_transaction L t3 (to_rat n3) y3 ''2024-02-01'',
                    new_transaction L t1 (to_rat n1) y1 ''2024-01-01'']
           \<and> map (key_str L)
                 [new_transaction L t2 (to_rat n2) y2 ''2024-03-01'',
                  new_transaction L t3 (to_rat n3) y3 ''2024-02-01'',
                  new_transaction L t1 (to_rat n1) y1 ''2024-01-01''] =
               [''2024-03-01'', ''2024-02-01'', ''2024-01-01'']"
proof -
  obtain w' where run: "add_expenses L [(t1, JNum n1, y1, ''2024-01-01''),
                              (t2, JNum n2, y2, ''2024-03-01''),
                              (t3, JNum n3, y3, ''2024-02-01'')] w = Inr w'"
    using add_expenses_JNum_total by blast
  have load: "load_expenses w' =
      [new_transaction L t1 (to_rat n1) y1 ''2024-01-01'',
       new_transaction L t2 (to_rat n2) y2 ''2024-03-01'',
       new_transaction L t3 (to_rat n3) y3 ''2024-02-01'']"
    using add_expenses_load [OF run] empty by (simp add: recorded_JNum)
  have k1: "sort_key_of L (new_transaction L t1 (to_rat n1) y1 ''2024-01-01'') = Inr ''2024-01-01''"
    using iso(1) by (simp add: sort_key_of_iso)
  have k2: "sort_key_of L (new_transaction L t2 (to_rat n2) y2 ''2024-03-01'') = Inr ''2024-03-01''"
    using iso(2) by (simp add: sort_key_of_iso)
  have k3: "sort_key_of L (new_transaction L t3 (to_rat n3) y3 ''2024-02-01'') = Inr ''2024-02-01''"
    using iso(3) by (simp add: sort_key_of_iso)
  have listing: "get_expenses L w' =
               Inr [new_transaction L t2 (to_rat n2) y2 ''2024-03-01'',
                    new_transaction L t3 (to_rat n3) y3 ''2024-02-01'',
                    new_transaction L t1 (to_rat n1) y1 ''2024-01-01'']"
    by (simp add: get_expenses_def load k1 k2 k3 sorted_reverse_def)
  have keys: "map (key_str L)
                 [new_transaction L t2 (to_rat n2) y2 ''2024-03-01'',
                  new_transaction L t3 (to_rat n3) y3 ''2024-02-01'',
                  new_transaction L t1 (to_rat n1) y1 ''2024-01-01''] =
               [''2024-03-01'', ''2024-02-01'', ''2024-01-01'']"
    by (simp add: key_str_def k1 k2 k3)
  show ?thesis
    by (rule exI [of _ w']) (simp only: run listing keys simp_thms)
qed


theorem get_expenses_three_dates_witness:
  "parses_iso table_lib ''2024-01-01'' \<and> parses_iso table_lib ''2024-03-01''
   \<and> parses_iso table_lib ''2024-02-01'' \<and> load_expenses fresh_world = []
   \<and> (\<exists>w'. add_expenses table_lib
                  [(''urea'', JNum (F 40), ''expense'', ''2024-01-01''),
                   (''wheat sale'', JNum (I 100), ''income'', ''2024-03-01''),
                   (''diesel'', JNum (I 11), ''expense'', ''2024-02-01'')] fresh_world = Inr w'
            \<and> get_expenses table_lib w' =
                Inr [transaction ''wheat sale'' 100 ''income'' ''01 Mar 2024'' (JStr ''2024-03-01''),
                     transaction ''diesel'' 11 ''expense'' ''01 Feb 2024'' (JStr ''2024-02-01''),
                     transaction ''urea'' 40 ''expense'' ''01 Jan 2024'' (JStr ''2024-01-01'')])"
proof -
  have p1: "parses_iso table_lib ''2024-01-01''"
    by (simp add: parses_iso_def table_lib_def)
  have p2: "parses_iso table_lib ''2024-03-01''"
    by (simp add: parses_iso_def table_lib_def)
  have p3: "parses_iso table_lib ''2024-02-01''"
    by (simp add: parses_iso_def table_lib_def)
  have e: "load_expenses fresh_world = []"
    by (simp add: load_expenses_def fresh_world_def)
  from get_expenses_three_dates [OF p1 p2 p3 e,
      of "''urea''" "F 40" "''expense''" "''wheat sale''" "I 100" "''income''"
         "''diesel''" "I 11" "''expense''"]
  obtain w' where
    run: "add_expenses table_lib
            [(''urea'', JNum (F 40), ''expense'', ''2024-01-01''),
             (''wheat sale'', JNum (I 100), ''income'', ''2024-03-01''),
             (''diesel'', JNum (I 11), ''expense'', ''2024-02-01'')] fresh_world = Inr w'" and
    listing: "get_expenses table_lib w' =
            Inr [new_transaction table_lib ''wheat sale'' (to_rat (I 100)) ''income'' ''2024-03-01'',
                 new_transaction table_lib ''diesel'' (to_rat (I 11)) ''expense'' ''2024-02-01'',
                 new_transaction table_lib ''urea'' (to_rat (F 40)) ''expense'' ''2024-01-01'']"
    by auto
  have shown: "get_expenses table_lib w' =
                Inr [transaction ''wheat sale'' 100 ''income'' ''01 Mar 2024'' (JStr ''2024-03-01''),
                     transaction ''diesel'' 11 ''expense'' ''01 Feb 2024'' (JStr ''2024-02-01''),
                     transaction ''urea'' 40 ''expense'' ''01 Jan 2024'' (JStr ''2024-01-01'')]"
    by (simp add: listing new_transaction_def transaction_def stamp_table)
  have "\<exists>w'. add_expenses table_lib
                  [(''urea'', JNum (F 40), ''expense'', ''2024-01-01''),
                   (''wheat sale'', JNum (I 100), ''income'', ''2024-03-01''),
                   (''diesel'', JNum (I 11), ''expense'', ''2024-02-01'')] fresh_world = Inr w'
            \<and> get_expenses table_lib w' =
                Inr [transaction ''wheat sale'' 100 ''income'' ''01 Mar 2024'' (JStr ''2024-03-01''),
                     transaction ''diesel'' 11 ''expense'' ''01 Feb 2024'' (JStr ''2024-02-01''),
                     transaction ''urea'' 40 ''expense'' ''01 Jan 2024'' (JStr ''2024-01-01'')]"
    by (rule exI [of _ w']) (simp only: run shown simp_thms)
  with p1 p2 p3 e show ?thesis by (simp only: simp_thms)
qed

lemma keyed_Inr:
  "keyed L xs = Inr ks \<Longrightarrow>
   map snd ks = xs \<and> (\<forall>p\<in>set ks. sort_key_of L (snd p) = Inr (fst p))"
proof (induction xs arbitrary: ks)
  case Nil
  then show ?case by simp
next
  case (Cons x xs)
  from Cons.prems obtain k rest where
    k: "sort_key_of L x = Inr k" and rest: "keyed L xs = Inr rest" and ks: "ks = (k, x) # rest"
    by (auto simp: then_py_eq_Inr)
  from Cons.IH [OF rest] k show ?case by (simp add: ks)
qed

lemma mset_sorted_reverse: "mset (sorted_reverse ks) = mset (map snd ks)"
  by (simp add: sorted_reverse_def)

lemma keys_sorted_reverse:
  assumes "\<forall>p\<in>set ks. key_str L (snd p) = fst p"
  shows "map (key_str L) (sorted_reverse ks) = rev (map fst (sort_key fst (rev ks)))"
proof -
  have "\<forall>p\<in>set (rev (sort_key fst (rev ks))). key_str L (snd p) = fst p"
    using assms by simp
  then have "map (key_str L \<circ> snd) (rev (sort_key fst (rev ks))) =
             map fst (rev (sort_key fst (rev ks)))"
    by (intro map_cong) simp_all
  then show ?thesis by (simp add: sorted_reverse_def rev_map)
qed

lemma descending_empty_last:
  fixes ks :: "string list"
  assumes "sorted (rev ks)" and "i < length ks" and "j < length ks"
    and "ks ! i = []" and "ks ! j \<noteq> []"
  shows "j < i"
proof (rule ccontr)
  assume "\<not> j < i"
  then have "i \<le> j" by simp
  from sorted_rev_nth_mono [OF assms(1) this assms(3)] have "ks ! j \<le> ks ! i" .
  with assms(4,5) show False by simp
qed

lemma sort_key_fence: "sort_key_of table_lib (transaction ''fence'' 5 ''expense'' ''soon'' JNull) = Inr ''''"
  by (simp add: sort_key_of_def transaction_def dict_get_def table_lib_def)

lemma sort_key_urea:
  "sort_key_of table_lib (transaction ''urea'' 40 ''expense'' ''01 Jan 2024'' (JStr ''2024-01-01'')) =
     Inr ''2024-01-01''"
  by (simp add: sort_key_of_def transaction_def dict_get_def)

text \<open>
  C6, as the code has it: a record whose \<^verbatim>\<open>ts\<close> is absent (or empty, or null) and whose
  date parses under neither format gets the empty string as its sort key. Whenever
  \<^verbatim>\<open>get_expenses\<close> returns, the listing is a rearrangement of the stored records with
  their keys in descending order, so every record with the empty key comes after every
  record with a non-empty key: records with unparsable dates are listed last.
\<close>

theorem get_expenses_unparsable_dates_last:
  "(\<not> truthy (case map_of kvs ''ts'' of None \<Rightarrow> JNull | Some v \<Rightarrow> v) \<longrightarrow>
    (\<forall>s. (case map_of kvs ''date'' of None \<Rightarrow> JStr '''' | Some v \<Rightarrow> v) = JStr s \<longrightarrow>
         lib_strptime L ''%d %b %Y'' s = None \<and> lib_strptime L ''%Y-%m-%d'' s = None) \<longrightarrow>
    sort_key_of L (JObj kvs) = Inr '''')
   \<and> (get_expenses L w = Inr out \<longrightarrow>
        mset out = mset (load_expenses w)
        \<and> sorted (rev (map (key_str L) out))
        \<and> (\<forall>i j. i < length out \<longrightarrow> j < length out \<longrightarrow>
                  key_str L (out ! i) = '''' \<longrightarrow> key_str L (out ! j) \<noteq> '''' \<longrightarrow> j < i))"
proof (intro conjI impI)
  assume "\<not> truthy (case map_of kvs ''ts'' of None \<Rightarrow> JNull | Some v \<Rightarrow> v)"
    and "\<forall>s. (case map_of kvs ''date'' of None \<Rightarrow> JStr '''' | Some v \<Rightarrow> v) = JStr s \<longrightarrow>
         lib_strptime L ''%d %b %Y'' s = None \<and> lib_strptime L ''%Y-%m-%d'' s = None"
  then show "sort_key_of L (JObj kvs) = Inr ''''"
    by (auto simp: sort_key_of_def dict_get_def split: json.splits)
next
  assume out: "get_expenses L w = Inr out"
  then obtain ks where ks: "keyed L (load_expenses w) = Inr ks" and o: "out = sorted_reverse ks"
    by (auto simp: get_expenses_def then_py_eq_Inr)
  from keyed_Inr [OF ks] have
    snd: "map snd ks = load_expenses w" and
    key: "\<forall>p\<in>set ks. key_str L (snd p) = fst p"
    by (simp_all add: key_str_def)
  show m: "mset out = mset (load_expenses w)"
    by (simp add: o mset_sorted_reverse snd)
  show s: "sorted (rev (map (key_str L) out))"
    by (simp add: o keys_sorted_reverse [OF key])
  show "\<forall>i j. i < length out \<longrightarrow> j < length out \<longrightarrow>
                  key_str L (out ! i) = '''' \<longrightarrow> key_str L (out ! j) \<noteq> '''' \<longrightarrow> j < i"
  proof (intro allI impI)
    fix i j
    assume "i < length out" "j < length out"
      "key_str L (out ! i) = ''''" "key_str L (out ! j) \<noteq> ''''"
    with descending_empty_last [OF s, of i j] show "j < i" by simp
  qed
qed


lemma get_expenses_undated_world:
  "get_expenses table_lib undated_world =
     Inr [transaction ''urea'' 40 ''expense'' ''01 Jan 2024'' (JStr ''2024-01-01''),
          transaction ''fence'' 5 ''expense'' ''soon'' JNull]"
  by (simp add: sort_key_fence sort_key_urea get_expenses_def undated_world_def
        load_expenses_def sorted_reverse_def)

theorem get_expenses_unparsable_dates_last_witness:
  "\<not> truthy (case map_of [(''title'', JStr ''fence''), (''amount'', JNum (F 5)),
                             (''type'', JStr ''expense''), (''date'', JStr ''soon''),
                             (''ts'', JNull)] ''ts'' of None \<Rightarrow> JNull | Some v \<Rightarrow> v)
   \<and> lib_strptime table_lib ''%d %b %Y'' ''soon'' = None
   \<and> lib_strptime table_lib ''%Y-%m-%d'' ''soon'' = None
   \<and> sort_key_of table_lib
         (JObj [(''title'', JStr ''fence''), (''amount'', JNum (F 5)),
                (''type'', JStr ''expense''), (''date'', JStr ''soon''), (''ts'', JNull)]) = Inr ''''
   \<and> get_expenses table_lib undated_world =
       Inr [transaction ''urea'' 40 ''expense'' ''01 Jan 2024'' (JStr ''2024-01-01''),
            transaction ''fence'' 5 ''expense'' ''soon'' JNull]
   \<and> mset [transaction ''urea'' 40 ''expense'' ''01 Jan 2024'' (JStr ''2024-01-01''),
            transaction ''fence'' 5 ''expense'' ''soon'' JNull] =
       mset (load_expenses undated_world)
   \<and> sorted (rev (map (key_str table_lib)
         [transaction ''urea'' 40 ''expense'' ''01 Jan 2024'' (JStr ''2024-01-01''),
          transaction ''fence'' 5 ''expense'' ''soon'' JNull]))"
proof -
  note T = get_expenses_unparsable_dates_last
    [of "[(''title'', JStr ''fence''), (''amount'', JNum (F 5)),
          (''type'', JStr ''expense''), (''date'', JStr ''soon''), (''ts'', JNull)]"
        table_lib undated_world
        "[transaction ''urea'' 40 ''expense'' ''01 Jan 2024'' (JStr ''2024-01-01''),
          transaction ''fence'' 5 ''expense'' ''soon'' JNull]"]
  have h1: "\<not> truthy (case map_of [(''title'', JStr ''fence''), (''amount'', JNum (F 5)),
                             (''type'', JStr ''expense''), (''date'', JStr ''soon''),
                             (''ts'', JNull)] ''ts'' of None \<Rightarrow> JNull | Some v \<Rightarrow> v)"
    by simp
  have h2: "lib_strptime table_lib ''%d %b %Y'' ''soon'' = None"
    by (simp add: table_lib_def)
  have h3: "lib_strptime table_lib ''%Y-%m-%d'' ''soon'' = None"
    by (simp add: table_lib_def)
  have h4: "\<forall>s. (case map_of [(''title'', JStr ''fence''), (''amount'', JNum (F 5)),
                             (''type'', JStr ''expense''), (''date'', JStr ''soon''),
                             (''ts'', JNull)] ''date'' of None \<Rightarrow> JStr '''' | Some v \<Rightarrow> v) = JStr s \<longrightarrow>
         lib_strptime table_lib ''%d %b %Y'' s = None \<and> lib_strptime table_lib ''%Y-%m-%d'' s = None"
    using h2 h3 by simp
  have a: "sort_key_of table_lib
         (JObj [(''title'', JStr ''fence''), (''amount'', JNum (F 5)),
                (''type'', JStr ''expense''), (''date'', JStr ''soon''), (''ts'', JNull)]) = Inr ''''"
    by (rule mp [OF mp [OF conjunct1 [OF T] h1] h4])
  note b = mp [OF conjunct2 [OF T] get_expenses_undated_world]
  from h1 h2 h3 a get_expenses_undated_world conjunct1 [OF b] conjunct1 [OF conjunct2 [OF b]]
  show ?thesis by (simp only: simp_thms)
qed

text \<open>
  The claim as it is worded fails: in a ledger holding an undated record followed by a
  dated one, the undated record (empty key) is listed second, not first.
\<close>

theorem unparsable_date_not_listed_first:
  "sort_key_of table_lib (transaction ''fence'' 5 ''expense'' ''soon'' JNull) = Inr ''''
   \<and> sort_key_of table_lib
         (transaction ''urea'' 40 ''expense'' ''01 Jan 2024'' (JStr ''2024-01-01'')) =
       Inr ''2024-01-01''
   \<and> get_expenses table_lib undated_world =
       Inr [transaction ''urea'' 40 ''expense'' ''01 Jan 2024'' (JStr ''2024-01-01''),
            transaction ''fence'' 5 ''expense'' ''soon'' JNull]"
  by (simp only: sort_key_fence sort_key_urea get_expenses_undated_world simp_thms)

section \<open>Weather without a credential\<close>















section \<open>Market prices: no data\<close>










section \<open>Market prices: the history of a live hit\<close>

lemma days_back: "rev [0..<7] = [6, 5, 4, 3, 2, 1, 0::nat]"
  by code_simp

lemma history_loop_run:
  "py_float L base_price = Inr b \<Longrightarrow>
   history_loop L w base_price ds k =
     Inr (map (\<lambda>(i, j). history_entry L w b i j) (zip ds [k..<k + length ds]))"
proof (induction ds arbitrary: k)
  case Nil
  then show ?case by simp
next
  case (Cons i ds)
  have "[k..<k + length (i # ds)] = k # [Suc k..<Suc k + length ds]"
    by (subst upt_rec) simp
  with Cons show ?case by (simp add: Let_def history_entry_def)
qed

lemma history_loop_week:
  assumes "py_float L base_price = Inr b"
  shows "history_loop L w base_price (rev [0..<7]) 0 =
           Inr (map (\<lambda>k. history_entry L w b (6 - k) k) [0..<7])"
proof -
  have "zip [6, 5, 4, 3, 2, 1, 0::nat] [0..<0 + length [6, 5, 4, 3, 2, 1, 0::nat]] =
        map (\<lambda>k. (6 - k, k)) [0..<7]"
    by code_simp
  then show ?thesis
    using history_loop_run [OF assms, of w "[6, 5, 4, 3, 2, 1, 0]" 0]
    by (simp add: days_back comp_def del: upt_Suc)
qed

lemma gets_dict:
  "gets (JObj r) kds =
     Inr (map (\<lambda>(k, d). (k, case map_of r k of None \<Rightarrow> d | Some v \<Rightarrow> v)) kds)"
  by (induction kds) (auto simp: dict_get_def)

lemma py_int_magnitude: "\<bar>of_int (py_int q)\<bar> \<le> \<bar>q\<bar>"
proof (cases "q < 0")
  case True
  then have "\<lceil>q\<rceil> \<le> 0" by (simp add: ceiling_le_zero)
  moreover have "q \<le> of_int \<lceil>q\<rceil>" by (rule le_of_int_ceiling)
  ultimately show ?thesis using True by (simp add: py_int_def)
next
  case False
  then have "0 \<le> \<lfloor>q\<rfloor>" by simp
  moreover have "of_int \<lfloor>q\<rfloor> \<le> q" by (rule of_int_floor_le)
  ultimately show ?thesis using False by (simp add: py_int_def)
qed

lemma py_int_close: "\<bar>q - of_int (py_int q)\<bar> < 1"
proof (cases "q < 0")
  case True
  have "q \<le> of_int \<lceil>q\<rceil>" "of_int \<lceil>q\<rceil> - 1 < q"
    using ceiling_correct [of q] by simp_all
  then show ?thesis using True by (simp add: py_int_def abs_less_iff)
next
  case False
  have "of_int \<lfloor>q\<rfloor> \<le> q" "q < of_int \<lfloor>q\<rfloor> + 1"
    using floor_correct [of q] by simp_all
  then show ?thesis using False by (simp add: py_int_def abs_less_iff)
qed

lemma jitter_within:
  fixes b u :: rat
  assumes "- 1 / 10 \<le> u" and "u \<le> 1 / 10"
  shows "\<bar>b * (1 + u) - b\<bar> \<le> \<bar>b\<bar> / 10"
proof -
  have "b * (1 + u) - b = b * u" by (simp add: algebra_simps)
  moreover have "\<bar>u\<bar> \<le> 1 / 10" using assms by (simp add: abs_le_iff)
  then have "\<bar>b\<bar> * \<bar>u\<bar> \<le> \<bar>b\<bar> * (1 / 10)" by (intro mult_left_mono) simp_all
  ultimately show ?thesis by (simp add: abs_mult)
qed

lemma get_market_price_live_result:
  assumes api: "price_api w commodity state = Inr response"
    and ok: "status_code response = 200"
    and data: "body response = Inr (JObj kvs)"
    and recs: "map_of kvs ''records'' = Some (JArr (JObj r # others))"
    and modal: "py_float L (case map_of r ''modal_price'' of None \<Rightarrow> JNull | Some v \<Rightarrow> v) = Inr b"
  shows "get_market_price L commodity state w =
           JObj ([(''crop'', JStr commodity), (''state'', JStr state)] @ record_fields r @
                 [(''history'', JArr (map (\<lambda>k. history_entry L w b (6 - k) k) [0..<7]))])"
proof -
  have key: "''records'' \<in> set (map fst kvs)"
    using recs by (metis map_of_eq_None_iff option.distinct(1) set_map)
  have hit: "has_records (JObj kvs) = Inr True"
    using key recs by (simp add: has_records_def py_contains_str_def dict_get_def py_len_def)
  have first: "then_py (py_getitem (JObj kvs) ''records'') py_first = Inr (JObj r)"
    using recs by (simp add: py_getitem_def py_first_def)
  have base: "py_getitem (JObj ([(''crop'', JStr commodity), (''state'', JStr state)] @
                                 record_fields r)) ''modal_price'' =
              Inr (case map_of r ''modal_price'' of None \<Rightarrow> JNull | Some v \<Rightarrow> v)"
    by (simp add: py_getitem_def record_fields_def)
  have fields: "gets (JObj r) [(''district'', JNull), (''market'', JNull),
                                    (''modal_price'', JNull), (''min_price'', JNull),
                                    (''max_price'', JNull), (''arrival_date'', JNull),
                                    (''variety'', JNull)] = Inr (record_fields r)"
    by (simp add: gets_dict record_fields_def del: gets.simps)
  have "get_market_price_body L commodity state w =
          Inr (JObj ([(''crop'', JStr commodity), (''state'', JStr state)] @ record_fields r @
                 [(''history'', JArr (map (\<lambda>k. history_entry L w b (6 - k) k) [0..<7]))]))"
    unfolding get_market_price_body_def
    by (simp only: api ok data hit first fields base history_loop_week [OF modal]
          then_py_Inr Let_def if_True if_False simp_thms append_assoc)
  then show ?thesis
    by (simp add: get_market_price_def)
qed

lemma week: "[0..<7] = [0, 1, 2, 3, 4, 5, 6::nat]"
  by code_simp

lemma live_price: "py_int (319 / 32) = 9"
  unfolding py_int_def by code_simp

lemma live_dates:
  "lib_strftime table_lib ''%d %b'' 738886 = ''01 Jan''"
  "lib_strftime table_lib ''%d %b'' 738887 = ''02 Jan''"
  "lib_strftime table_lib ''%d %b'' 738888 = ''03 Jan''"
  "lib_strftime table_lib ''%d %b'' 738889 = ''04 Jan''"
  "lib_strftime table_lib ''%d %b'' 738890 = ''05 Jan''"
  "lib_strftime table_lib ''%d %b'' 738891 = ''06 Jan''"
  "lib_strftime table_lib ''%d %b'' 738892 = ''07 Jan''"
  by (simp_all add: table_lib_def)

lemma live_api:
  "price_api live_world ''Tomato'' ''Maharashtra'' =
     Inr \<lparr>status_code = 200,
          body = Inr (JObj [(''records'',
                   JArr [JObj [(''market'', JStr ''Pune''), (''modal_price'', JStr ''11'')]])])\<rparr>"
  by (simp add: live_world_def)

lemma live_ok:
  "status_code \<lparr>status_code = 200,
          body = Inr (JObj [(''records'',
                   JArr [JObj [(''market'', JStr ''Pune''), (''modal_price'', JStr ''11'')]])])\<rparr> = 200"
  by simp

lemma live_data:
  "body \<lparr>status_code = 200,
          body = Inr (JObj [(''records'',
                   JArr [JObj [(''market'', JStr ''Pune''), (''modal_price'', JStr ''11'')]])])\<rparr> =
        Inr (JObj [(''records'',
                   JArr [JObj [(''market'', JStr ''Pune''), (''modal_price'', JStr ''11'')]])])"
  by simp

lemma live_recs:
  "map_of [(''records'',
            JArr [JObj [(''market'', JStr ''Pune''), (''modal_price'', JStr ''11'')]])]
     ''records'' =
   Some (JArr (JObj [(''market'', JStr ''Pune''), (''modal_price'', JStr ''11'')] # []))"
  by simp

lemma live_modal:
  "py_float table_lib
     (case map_of [(''market'', JStr ''Pune''), (''modal_price'', JStr ''11'')] ''modal_price'' of
        None \<Rightarrow> JNull | Some v \<Rightarrow> v) = Inr 11"
  by (simp add: float_table)

lemma live_history:
  "map (\<lambda>k. history_entry table_lib live_world 11 (6 - k) k) [0..<7] =
     [JObj [(''date'', JStr ''01 Jan''), (''price'', JNum (I 9))],
      JObj [(''date'', JStr ''02 Jan''), (''price'', JNum (I 9))],
      JObj [(''date'', JStr ''03 Jan''), (''price'', JNum (I 9))],
      JObj [(''date'', JStr ''04 Jan''), (''price'', JNum (I 9))],
      JObj [(''date'', JStr ''05 Jan''), (''price'', JNum (I 9))],
      JObj [(''date'', JStr ''06 Jan''), (''price'', JNum (I 9))],
      JObj [(''date'', JStr ''07 Jan''), (''price'', JNum (I 9))]]"
  by (simp add: week history_entry_def live_world_def fresh_world_def live_price live_dates)

lemma live_result:
  "get_market_price table_lib ''Tomato'' ''Maharashtra'' live_world =
     JObj [(''crop'', JStr ''Tomato''), (''state'', JStr ''Maharashtra''),
           (''district'', JNull), (''market'', JStr ''Pune''), (''modal_price'', JStr ''11''),
           (''min_price'', JNull), (''max_price'', JNull), (''arrival_date'', JNull),
           (''variety'', JNull),
           (''history'',
            JArr [JObj [(''date'', JStr ''01 Jan''), (''price'', JNum (I 9))],
                  JObj [(''date'', JStr ''02 Jan''), (''price'', JNum (I 9))],
                  JObj [(''date'', JStr ''03 Jan''), (''price'', JNum (I 9))],
                  JObj [(''date'', JStr ''04 Jan''), (''price'', JNum (I 9))],
                  JObj [(''date'', JStr ''05 Jan''), (''price'', JNum (I 9))],
                  JObj [(''date'', JStr ''06 Jan''), (''price'', JNum (I 9))],
                  JObj [(''date'', JStr ''07 Jan''), (''price'', JNum (I 9))]])]"
proof -
  have "get_market_price table_lib ''Tomato'' ''Maharashtra'' live_world =
          JObj ([(''crop'', JStr ''Tomato''), (''state'', JStr ''Maharashtra'')] @
                record_fields [(''market'', JStr ''Pune''), (''modal_price'', JStr ''11'')] @
                [(''history'',
                  JArr (map (\<lambda>k. history_entry table_lib live_world 11 (6 - k) k) [0..<7]))])"
    by (rule get_market_price_live_result [OF live_api live_ok live_data live_recs live_modal])
  then show ?thesis
    by (simp only: live_history) (simp add: record_fields_def)
qed

lemma live_draw: "- 1 / 10 \<le> uniform live_world 0 \<and> uniform live_world 0 \<le> 1 / 10"
  by (simp add: live_world_def)

text \<open>
  C9, as the code has it: on a live hit (status 200, a first record that is a dict, a
  modal price that converts to a float \<open>b\<close>) \<^verbatim>\<open>get_market_price\<close> returns the
  normalised record with a history of exactly 7 entries, oldest day first, the entry of
  draw \<open>k\<close> holding the price \<^verbatim>\<open>int(b * (1 + u))\<close> for the \<open>k\<close>-th draw \<open>u\<close>. For a
  draw in \<open>[-0.1, 0.1]\<close> the value before truncation lies within 10 percent of the modal
  price; the truncation is towards zero and moves it by less than 1, so the price lies
  within 10 percent of the modal price plus one unit (floats taken as exact rationals).
\<close>

theorem get_market_price_live_history:
  assumes api: "price_api w commodity state = Inr response"
    and ok: "status_code response = 200"
    and data: "body response = Inr (JObj kvs)"
    and recs: "map_of kvs ''records'' = Some (JArr (JObj r # others))"
    and modal: "py_float L (case map_of r ''modal_price'' of None \<Rightarrow> JNull | Some v \<Rightarrow> v) = Inr b"
  shows "get_market_price L commodity state w =
           JObj ([(''crop'', JStr commodity), (''state'', JStr state)] @ record_fields r @
                 [(''history'', JArr (map (\<lambda>k. history_entry L w b (6 - k) k) [0..<7]))])
       \<and> length (map (\<lambda>k. history_entry L w b (6 - k) k) [0..<7]) = 7
       \<and> (\<forall>k<7. - 1 / 10 \<le> uniform w k \<and> uniform w k \<le> 1 / 10 \<longrightarrow>
             \<bar>b * (1 + uniform w k) - b\<bar> \<le> \<bar>b\<bar> / 10
             \<and> \<bar>of_int (py_int (b * (1 + uniform w k)))\<bar> \<le> \<bar>b * (1 + uniform w k)\<bar>
             \<and> \<bar>b * (1 + uniform w k) - of_int (py_int (b * (1 + uniform w k)))\<bar> < 1
             \<and> \<bar>of_int (py_int (b * (1 + uniform w k))) - b\<bar> < \<bar>b\<bar> / 10 + 1)"
proof (intro conjI allI impI)
  show "get_market_price L commodity state w =
           JObj ([(''crop'', JStr commodity), (''state'', JStr state)] @ record_fields r @
                 [(''history'', JArr (map (\<lambda>k. history_entry L w b (6 - k) k) [0..<7]))])"
    by (rule get_market_price_live_result [OF assms])
  show "length (map (\<lambda>k. history_entry L w b (6 - k) k) [0..<7]) = 7" by simp
  {
    fix k
    assume "- 1 / 10 \<le> uniform w k \<and> uniform w k \<le> 1 / 10"
    then have j: "\<bar>b * (1 + uniform w k) - b\<bar> \<le> \<bar>b\<bar> / 10"
      by (intro jitter_within) simp_all
    show "\<bar>b * (1 + uniform w k) - b\<bar> \<le> \<bar>b\<bar> / 10" by (rule j)
    show "\<bar>of_int (py_int (b * (1 + uniform w k)))\<bar> \<le> \<bar>b * (1 + uniform w k)\<bar>"
      by (rule py_int_magnitude)
    show "\<bar>b * (1 + uniform w k) - of_int (py_int (b * (1 + uniform w k)))\<bar> < 1"
      by (rule py_int_close)
    from j py_int_close [of "b * (1 + uniform w k)"]
    show "\<bar>of_int (py_int (b * (1 + uniform w k))) - b\<bar> < \<bar>b\<bar> / 10 + 1"
      by linarith
  }
qed

theorem get_market_price_live_history_witness:
  "price_api live_world ''Tomato'' ''Maharashtra'' =
     Inr \<lparr>status_code = 200,
          body = Inr (JObj [(''records'',
                   JArr [JObj [(''market'', JStr ''Pune''), (''modal_price'', JStr ''11'')]])])\<rparr>
   \<and> py_float table_lib (JStr ''11'') = Inr 11
   \<and> (- 1 / 10 \<le> uniform live_world 0 \<and> uniform live_world 0 \<le> 1 / 10)
   \<and> get_market_price table_lib ''Tomato'' ''Maharashtra'' live_world =
       JObj ([(''crop'', JStr ''Tomato''), (''state'', JStr ''Maharashtra'')] @
             record_fields [(''market'', JStr ''Pune''), (''modal_price'', JStr ''11'')] @
             [(''history'',
               JArr (map (\<lambda>k. history_entry table_lib live_world 11 (6 - k) k) [0..<7]))])
   \<and> length (map (\<lambda>k. history_entry table_lib live_world 11 (6 - k) k) [0..<7]) = 7
   \<and> \<bar>of_int (py_int (11 * (1 + uniform live_world 0))) - 11\<bar> < \<bar>11 :: rat\<bar> / 10 + 1"
proof -
  note T = get_market_price_live_history [OF live_api live_ok live_data live_recs live_modal]
  have k0: "(0::nat) < 7" by simp
  note B = mp [OF mp [OF spec [OF conjunct2 [OF conjunct2 [OF T]]] k0] live_draw]
  show ?thesis
    by (intro conjI)
       (rule live_api, rule float_table, rule conjunct1 [OF live_draw],
        rule conjunct2 [OF live_draw], rule conjunct1 [OF T],
        rule conjunct1 [OF conjunct2 [OF T]],
        rule conjunct2 [OF conjunct2 [OF conjunct2 [OF B]]])
qed

text \<open>
  The claim as it is worded fails: the price itself need not lie within 10 percent of
  the modal price. With a modal price of 11 and a draw of -3/32 the value is 9.96875,
  the listed price is 9, and 9 is more than 1.1 away from 11.
\<close>

theorem history_price_outside_10_percent:
  "- 1 / 10 \<le> uniform live_world 0 \<and> uniform live_world 0 \<le> 1 / 10
   \<and> py_float table_lib (JStr ''11'') = Inr 11
   \<and> get_market_price table_lib ''Tomato'' ''Maharashtra'' live_world =
     JObj [(''crop'', JStr ''Tomato''), (''state'', JStr ''Maharashtra''),
           (''district'', JNull), (''market'', JStr ''Pune''), (''modal_price'', JStr ''11''),
           (''min_price'', JNull), (''max_price'', JNull), (''arrival_date'', JNull),
           (''variety'', JNull),
           (''history'',
            JArr [JObj [(''date'', JStr ''01 Jan''), (''price'', JNum (I 9))],
                  JObj [(''date'', JStr ''02 Jan''), (''price'', JNum (I 9))],
                  JObj [(''date'', JStr ''03 Jan''), (''price'', JNum (I 9))],
                  JObj [(''date'', JStr ''04 Jan''), (''price'', JNum (I 9))],
                  JObj [(''date'', JStr ''05 Jan''), (''price'', JNum (I 9))],
                  JObj [(''date'', JStr ''06 Jan''), (''price'', JNum (I 9))],
                  JObj [(''date'', JStr ''07 Jan''), (''price'', JNum (I 9))]])]
   \<and> \<not> within_10_percent 9 11"
proof -
  have "\<not> within_10_percent 9 11"
    by (simp add: within_10_percent_def)
  with live_draw float_table live_result show ?thesis by (simp only: simp_thms)
qed

section \<open>The chatbot without a model credential\<close>

lemma lower_append: "lower (a @ b) = lower a @ lower b"
  by (simp add: lower_def)

lemma sublist_embed: "sublist x s \<Longrightarrow> sublist x (pre @ s @ post)"
  by (auto simp: sublist_def) (metis append.assoc)

lemma lower_weather: "lower ''weather'' = ''weather''"
  by code_simp

lemma sublist_lower_weather:
  assumes "sublist ''weather'' question"
  shows "sublist ''weather'' (lower question)"
proof -
  from assms obtain ps ss where "question = ps @ ''weather'' @ ss"
    by (auto simp: sublist_def)
  then have "lower question = lower ps @ ''weather'' @ lower ss"
    by (simp only: lower_append lower_weather)
  then show ?thesis by (simp only: sublist_appendI)
qed

lemma mock_response_weather:
  "sublist ''weather'' (lower prompt) \<Longrightarrow>
   mock_response prompt =
     ''The weather looks clear for the next few days. Good for spraying pesticides.''"
  by (simp add: mock_response_def Let_def)

lemma mock_weather:
  "mock_response ''weather'' =
     ''The weather looks clear for the next few days. Good for spraying pesticides.''"
  by (rule mock_response_weather) (simp add: lower_weather)

lemma detect_intent_prompt_weather:
  "sublist ''weather'' (lower (detect_intent_prompt question))"
proof -
  have "sublist ''weather'' (lower (''    - weather''))"
    by code_simp
  then have "sublist ''weather''
      (lower (nl @ ''    Classify the intent of this question into one word:'' @ nl) @
       lower ''    - weather'' @
       lower (nl @ ''    - price'' @ nl @ ''    - soil'' @ nl @ ''    - finance'' @ nl @
              ''    - crop_advice'' @ nl @ ''    - general'' @ nl @ nl @
              ''    Question: '' @ dq @ question @ dq @ nl @ nl @
              ''    ONLY return one word.'' @ nl @ ''    ''))"
    by (rule sublist_embed)
  then show ?thesis
    by (simp only: detect_intent_prompt_def lower_append append_assoc)
qed

lemma extract_city_prompt_weather:
  assumes "sublist ''weather'' question"
  shows "sublist ''weather'' (lower (extract_city_prompt question))"
proof -
  have "sublist ''weather''
      (lower (nl @ ''    Extract the city name from: '' @ dq) @
       lower question @
       lower (dq @ nl @ ''    If none found, return '' @ dq @ ''Pune'' @ dq @ ''.'' @ nl @
              ''    ONLY return the city.'' @ nl @ ''    ''))"
    by (rule sublist_embed) (rule sublist_lower_weather [OF assms])
  then show ?thesis
    by (simp only: extract_city_prompt_def lower_append append_assoc)
qed

lemma ask_llm_offline:
  "\<not> configured (openrouter_key w) \<Longrightarrow> ask_llm prompt w = JStr (mock_response prompt)"
  by (simp add: ask_llm_def)

lemma mock_sentence_normalised:
  "lower (strip ''The weather looks clear for the next few days. Good for spraying pesticides.'') =
     ''the weather looks clear for the next few days. good for spraying pesticides.''"
  "strip ''The weather looks clear for the next few days. Good for spraying pesticides.'' =
     ''The weather looks clear for the next few days. Good for spraying pesticides.''"
  "lower ''The weather looks clear for the next few days. Good for spraying pesticides.'' =
     ''the weather looks clear for the next few days. good for spraying pesticides.''"
  by code_simp+

lemma mock_sentence_words:
  "sublist ''weather''
     ''the weather looks clear for the next few days. good for spraying pesticides.''"
  "sublist ''clear''
     ''The weather looks clear for the next few days. Good for spraying pesticides.''"
  "sublist ''spraying''
     ''The weather looks clear for the next few days. Good for spraying pesticides.''"
  by (simp_all add: sublist_code)

lemma process_query_offline_weather:
  assumes q: "sublist ''weather'' question" and off: "\<not> configured (openrouter_key w)"
  shows "process_query L question w =
           answer_of (get_weather L (mock_response ''weather'') w)
             (format_weather L (mock_response ''weather'')
                (get_weather L (mock_response ''weather'') w))"
proof -
  have intent: "detect_intent question w =
      Inr ''the weather looks clear for the next few days. good for spraying pesticides.''"
    by (simp add: detect_intent_def ask_llm_offline [OF off]
          mock_response_weather [OF detect_intent_prompt_weather] strip_lower_def
          mock_sentence_normalised)
  have city: "extract_city question w = Inr (mock_response ''weather'')"
    by (simp add: extract_city_def ask_llm_offline [OF off]
          mock_response_weather [OF extract_city_prompt_weather [OF q]] py_strip_def
          mock_sentence_normalised mock_weather)
  show ?thesis
    unfolding process_query_def
    by (simp only: intent city then_py_Inr mock_sentence_words if_True Let_def)
qed

lemma format_weather_words:
  assumes "map_of kvs ''temp'' = Some temp" and "map_of kvs ''humidity'' = Some hum"
    and "map_of kvs ''weather'' = Some (JStr sky)"
  shows "\<exists>s. format_weather L (mock_response ''weather'') (JObj kvs) = Inr s
             \<and> sublist ''clear'' s \<and> sublist ''spraying'' s"
proof -
  let ?pre = "nl @ sun_behind_rain_cloud @ '' **Weather Update '' @ en_dash @ '' ''"
  let ?post = "''**'' @ nl @
            ''Temperature: **'' @ py_str L temp @ degree_sign @ ''C**'' @ nl @
            ''Humidity: **'' @ py_str L hum @ ''%**'' @ nl @
            ''Sky: **'' @ lib_title L sky @ ''**'' @ nl @
            nl @
            check_mark @ '' Good time for outdoor farm work if rain chance is low.'' @ nl"
  have f: "format_weather L (mock_response ''weather'') (JObj kvs) =
             Inr (?pre @ mock_response ''weather'' @ ?post)"
    using assms by (simp add: format_weather_def py_getitem_def py_title_def)
  have "sublist ''clear'' (?pre @ mock_response ''weather'' @ ?post)"
    by (rule sublist_embed) (simp only: mock_weather mock_sentence_words)
  moreover have "sublist ''spraying'' (?pre @ mock_response ''weather'' @ ?post)"
    by (rule sublist_embed) (simp only: mock_weather mock_sentence_words)
  ultimately show ?thesis using f by blast
qed

lemma question_has_weather: "sublist ''weather'' ''What is the weather today?''"
  by (simp add: sublist_code)

lemma fresh_offline: "\<not> configured (openrouter_key fresh_world)"
  by (simp add: fresh_world_def configured_def)

lemma pune_offline: "\<not> configured (openrouter_key pune_world)"
  by (simp add: pune_world_def fresh_world_def configured_def)

lemma fresh_weather:
  "get_weather L city fresh_world =
     JObj [(''error'', JStr ''Missing OPENWEATHER_KEY in .env'')]"
  by (simp add: get_weather_def fresh_world_def configured_def local_weather_or_def
        find_local_weather_def find_local_weather_body_def)

lemma city_of_pune: "city_of pune = Inr ''pune''"
  unfolding city_of_def pune_def dict_get_def strip_lower_def by code_simp

lemma pune_not_the_sentence:
  "''pune'' \<noteq> ''the weather looks clear for the next few days. good for spraying pesticides.''"
  "\<not> sublist ''the weather looks clear for the next few days. good for spraying pesticides.''
        ''pune''"
  by (simp_all add: sublist_code)

lemma pune_weather:
  "get_weather L (mock_response ''weather'') pune_world =
     JObj [(''city'', JStr ''Pune''), (''temp'', JNum (I 28)),
           (''humidity'', JNum (I 60)), (''weather'', JStr ''haze'')]"
proof -
  have "find_local_weather (mock_response ''weather'') pune_world = pune"
    by (simp add: find_local_weather_def find_local_weather_body_def pune_world_def
          py_iter_def mock_weather mock_sentence_normalised exact_city_def contains_city_def
          default_city_def city_of_pune pune_not_the_sentence Let_def)
  then show ?thesis
    by (simp add: get_weather_def pune_offline local_weather_or_def pune_def
          pune_world_def fresh_world_def configured_def)
qed

lemma fresh_answer:
  "process_query L ''What is the weather today?'' fresh_world =
     Inr (JObj [(''answer'', JStr ''Missing OPENWEATHER_KEY in .env'')])"
  by (simp add: process_query_offline_weather [OF question_has_weather fresh_offline]
        fresh_weather answer_of_def py_contains_str_def py_getitem_def)

text \<open>
  C8, as the code has it: let the question contain the word "weather" and let no
  language-model credential be configured, so that every model call is answered by the
  keyword mock. Then the intent is the mock's weather sentence, the extracted city is
  that same sentence, and \<^verbatim>\<open>process_query\<close> answers from \<^verbatim>\<open>get_weather\<close> for that
  city: when the lookup returns a record with an \<^verbatim>\<open>error\<close> key the answer is that error
  value; when it returns a record without one that has \<^verbatim>\<open>temp\<close>, \<^verbatim>\<open>humidity\<close> and a
  string \<^verbatim>\<open>weather\<close>, the answer is the weather template, whose heading quotes the
  mock sentence and so contains both "clear" and "spraying".
\<close>

theorem process_query_weather_offline:
  assumes "sublist ''weather'' question" and "\<not> configured (openrouter_key w)"
  shows "process_query L question w =
           answer_of (get_weather L (mock_response ''weather'') w)
             (format_weather L (mock_response ''weather'')
                (get_weather L (mock_response ''weather'') w))
       \<and> (\<forall>kvs e. get_weather L (mock_response ''weather'') w = JObj kvs \<longrightarrow>
             map_of kvs ''error'' = Some e \<longrightarrow>
             process_query L question w = Inr (JObj [(''answer'', e)]))
       \<and> (\<forall>kvs temp hum sky.
             get_weather L (mock_response ''weather'') w = JObj kvs \<longrightarrow>
             map_of kvs ''error'' = None \<longrightarrow>
             map_of kvs ''temp'' = Some temp \<longrightarrow>
             map_of kvs ''humidity'' = Some hum \<longrightarrow>
             map_of kvs ''weather'' = Some (JStr sky) \<longrightarrow>
             (\<exists>s. process_query L question w = Inr (JObj [(''answer'', JStr s)])
                  \<and> sublist ''clear'' s \<and> sublist ''spraying'' s))"
proof (intro conjI allI impI)
  show p: "process_query L question w =
           answer_of (get_weather L (mock_response ''weather'') w)
             (format_weather L (mock_response ''weather'')
                (get_weather L (mock_response ''weather'') w))"
    by (rule process_query_offline_weather [OF assms])
  {
    fix kvs e
    assume g: "get_weather L (mock_response ''weather'') w = JObj kvs"
      and e: "map_of kvs ''error'' = Some e"
    from e have "''error'' \<in> set (map fst kvs)"
      by (metis map_of_eq_None_iff option.distinct(1) set_map)
    with e show "process_query L question w = Inr (JObj [(''answer'', e)])"
      by (simp add: p g answer_of_def py_contains_str_def py_getitem_def)
  }
  {
    fix kvs temp hum sky
    assume g: "get_weather L (mock_response ''weather'') w = JObj kvs"
      and e: "map_of kvs ''error'' = None"
      and f: "map_of kvs ''temp'' = Some temp" "map_of kvs ''humidity'' = Some hum"
        "map_of kvs ''weather'' = Some (JStr sky)"
    from e have n: "''error'' \<notin> set (map fst kvs)"
      by (simp add: map_of_eq_None_iff)
    from format_weather_words [OF f, of L] obtain s where
      s: "format_weather L (mock_response ''weather'') (JObj kvs) = Inr s"
        "sublist ''clear'' s" "sublist ''spraying'' s"
      by blast
    have "process_query L question w = Inr (JObj [(''answer'', JStr s)])"
      using n by (simp add: p g answer_of_def py_contains_str_def s(1))
    with s(2,3) show "\<exists>s. process_query L question w = Inr (JObj [(''answer'', JStr s)])
                  \<and> sublist ''clear'' s \<and> sublist ''spraying'' s"
      by blast
  }
qed


theorem process_query_weather_offline_witness:
  "sublist ''weather'' ''What is the weather today?''
   \<and> \<not> configured (openrouter_key fresh_world)
   \<and> \<not> configured (openrouter_key pune_world)
   \<and> get_weather table_lib (mock_response ''weather'') fresh_world =
       JObj [(''error'', JStr ''Missing OPENWEATHER_KEY in .env'')]
   \<and> process_query table_lib ''What is the weather today?'' fresh_world =
       Inr (JObj [(''answer'', JStr ''Missing OPENWEATHER_KEY in .env'')])
   \<and> get_weather table_lib (mock_response ''weather'') pune_world =
       JObj [(''city'', JStr ''Pune''), (''temp'', JNum (I 28)),
             (''humidity'', JNum (I 60)), (''weather'', JStr ''haze'')]
   \<and> (\<exists>s. process_query table_lib ''What is the weather today?'' pune_world =
             Inr (JObj [(''answer'', JStr s)])
            \<and> sublist ''clear'' s \<and> sublist ''spraying'' s)"
proof -
  note T1 = process_query_weather_offline [OF question_has_weather fresh_offline, of table_lib]
  note T2 = process_query_weather_offline [OF question_has_weather pune_offline, of table_lib]
  have e: "map_of [(''error'', JStr ''Missing OPENWEATHER_KEY in .env'')] ''error'' =
             Some (JStr ''Missing OPENWEATHER_KEY in .env'')"
    by simp
  have a: "process_query table_lib ''What is the weather today?'' fresh_world =
       Inr (JObj [(''answer'', JStr ''Missing OPENWEATHER_KEY in .env'')])"
    by (rule mp [OF mp [OF spec [OF spec [OF conjunct1 [OF conjunct2 [OF T1]]]]
          fresh_weather] e])
  have f: "map_of [(''city'', JStr ''Pune''), (''temp'', JNum (I 28)),
                   (''humidity'', JNum (I 60)), (''weather'', JStr ''haze'')] ''error'' = None"
      "map_of [(''city'', JStr ''Pune''), (''temp'', JNum (I 28)),
                   (''humidity'', JNum (I 60)), (''weather'', JStr ''haze'')] ''temp'' =
         Some (JNum (I 28))"
      "map_of [(''city'', JStr ''Pune''), (''temp'', JNum (I 28)),
                   (''humidity'', JNum (I 60)), (''weather'', JStr ''haze'')] ''humidity'' =
         Some (JNum (I 60))"
      "map_of [(''city'', JStr ''Pune''), (''temp'', JNum (I 28)),
                   (''humidity'', JNum (I 60)), (''weather'', JStr ''haze'')] ''weather'' =
         Some (JStr ''haze'')"
    by simp_all
  have b: "\<exists>s. process_query table_lib ''What is the weather today?'' pune_world =
             Inr (JObj [(''answer'', JStr s)])
            \<and> sublist ''clear'' s \<and> sublist ''spraying'' s"
    by (rule mp [OF mp [OF mp [OF mp [OF mp [OF spec [OF spec [OF spec [OF spec
          [OF conjunct2 [OF conjunct2 [OF T2]]]]]] pune_weather] f(1)] f(2)] f(3)] f(4)])
  show ?thesis
    by (intro conjI)
       (rule question_has_weather, rule fresh_offline, rule pune_offline, rule fresh_weather,
        rule a, rule pune_weather, rule b)
qed

text \<open>
  The claim as it is worded fails: on a fresh installation (no model credential, no
  weather credential, no weather cache) the answer to a question containing "weather"
  is the error text of the weather lookup, which contains neither word.
\<close>

theorem weather_question_answered_with_error:
  "sublist ''weather'' ''What is the weather today?''
   \<and> \<not> configured (openrouter_key fresh_world)
   \<and> process_query table_lib ''What is the weather today?'' fresh_world =
       Inr (JObj [(''answer'', JStr ''Missing OPENWEATHER_KEY in .env'')])
   \<and> \<not> sublist ''clear'' ''Missing OPENWEATHER_KEY in .env''
   \<and> \<not> sublist ''spraying'' ''Missing OPENWEATHER_KEY in .env''"
proof -
  have "\<not> sublist ''clear'' ''Missing OPENWEATHER_KEY in .env''"
    and "\<not> sublist ''spraying'' ''Missing OPENWEATHER_KEY in .env''"
    by (simp_all add: sublist_code)
  with question_has_weather fresh_offline fresh_answer [of table_lib]
  show ?thesis by (simp only: simp_thms)
qed

end
